theory Spec2Isabelle
  imports Complex_Main
begin

section \<open>Dependencies (core.py)\<close>

text \<open>
  The dataclass \<^verbatim>\<open>Dependencies\<close> holds four sets (the field \<^verbatim>\<open>fields\<close> is named \<open>fields_set\<close> here). Its constructor takes no argument
  and makes all four empty; \<^verbatim>\<open>merge\<close> builds a fresh object from the unions.
\<close>

record Dependencies =
  fields_set :: "string set"
  tag_ids :: "int set"
  phonebook_ids :: "int set"
  custom_field_ids :: "int set"

definition Dependencies_init :: Dependencies where
  "Dependencies_init =
     \<lparr>fields_set = {}, tag_ids = {}, phonebook_ids = {}, custom_field_ids = {}\<rparr>"

definition merge :: "Dependencies \<Rightarrow> Dependencies \<Rightarrow> Dependencies" where
  "merge self other =
     \<lparr>fields_set = fields_set self \<union> fields_set other,
      tag_ids = tag_ids self \<union> tag_ids other,
      phonebook_ids = phonebook_ids self \<union> phonebook_ids other,
      custom_field_ids = custom_field_ids self \<union> custom_field_ids other\<rparr>"

section \<open>Values (the JSON domain of rules, records and results)\<close>

text \<open>
  Rules, records and results are Python objects of the JSON domain: \<^verbatim>\<open>None\<close>, \<^verbatim>\<open>bool\<close>,
  \<^verbatim>\<open>int\<close>, \<^verbatim>\<open>float\<close>, \<^verbatim>\<open>str\<close>, \<^verbatim>\<open>list\<close> and \<^verbatim>\<open>dict\<close> with string keys. A dict
  keeps its insertion order (\<^verbatim>\<open>list(rules.keys())[0]\<close> is its first key), so it is an
  association list. A raised exception is a value of \<open>pyerr\<close>; \<open>Raised\<close> stands for
  whatever a caller-supplied operator raises.

  Python floats are IEEE doubles. Their type is the parameter \<open>'f\<close>, and what the
  interpreter does with them (conversion from \<^verbatim>\<open>int\<close> and \<^verbatim>\<open>str\<close>, rounding arithmetic,
  printing) is a record \<open>host\<close> of primitives that every function takes as \<open>H\<close>.
  \<open>float_value\<close> gives the number a float denotes, so that comparisons, which Python
  decides exactly, are written out here. \<open>float_of_int\<close> is \<open>None\<close> where
  \<^verbatim>\<open>float(i)\<close> raises OverflowError, \<open>float_of_str\<close> where \<^verbatim>\<open>float(s)\<close> raises ValueError.
  \<open>str_repr\<close> is \<^verbatim>\<open>repr\<close> and \<open>str_lower\<close> is \<^verbatim>\<open>str.lower\<close>, on strings.
\<close>

datatype pyerr = TypeError | ValueError | ZeroDivisionError | IndexError | NameError
  | OverflowError | Raised string

datatype 'f pyval = VNone | VBool bool | VInt int | VFloat 'f | VStr string
  | VList "'f pyval list" | VDict "(string \<times> 'f pyval) list"

datatype pytype = NoneType | BoolType | IntType | FloatType | StrType | ListType | DictType

datatype fvalue = Fin rat | PInf | NInf | NaN

record 'f host =
  float_value :: "'f \<Rightarrow> fvalue"
  float_of_int :: "int \<Rightarrow> 'f option"
  float_of_str :: "string \<Rightarrow> 'f option"
  float_add :: "'f \<Rightarrow> 'f \<Rightarrow> 'f"
  float_sub :: "'f \<Rightarrow> 'f \<Rightarrow> 'f"
  float_mul :: "'f \<Rightarrow> 'f \<Rightarrow> 'f"
  float_truediv :: "'f \<Rightarrow> 'f \<Rightarrow> 'f"
  float_mod :: "'f \<Rightarrow> 'f \<Rightarrow> 'f"
  float_neg :: "'f \<Rightarrow> 'f"
  float_str :: "'f \<Rightarrow> string"
  str_repr :: "string \<Rightarrow> string"
  str_lower :: "string \<Rightarrow> string"

section \<open>Python built-ins used by the evaluator\<close>

text \<open>
  \<open>py_type\<close> is \<^verbatim>\<open>type(v)\<close>, \<open>truthy\<close> is \<^verbatim>\<open>bool(v)\<close>, \<open>py_eq\<close> is \<^verbatim>\<open>a == b\<close>
  (numbers of the three numeric types compare by value, \<^verbatim>\<open>True == 1\<close>; dicts compare
  as mappings), \<open>py_lt\<close> is \<^verbatim>\<open>a < b\<close> (TypeError between unordered types), \<open>py_str\<close> is
  \<^verbatim>\<open>str(v)\<close>, \<open>py_float\<close> is \<^verbatim>\<open>float(v)\<close>, \<open>py_in\<close> is \<^verbatim>\<open>needle in haystack\<close>,
  \<open>dict_get\<close> is \<^verbatim>\<open>data.get(key, default)\<close> (TypeError on an unhashable key),
  \<open>py_min\<close> and \<open>py_max\<close> are \<^verbatim>\<open>min(values)\<close> and \<^verbatim>\<open>max(values)\<close>. Object identity is
  not part of the model: containers compare through their elements only.
\<close>

fun py_type :: "'f pyval \<Rightarrow> pytype" where
  "py_type VNone = NoneType"
| "py_type (VBool b) = BoolType"
| "py_type (VInt i) = IntType"
| "py_type (VFloat f) = FloatType"
| "py_type (VStr s) = StrType"
| "py_type (VList xs) = ListType"
| "py_type (VDict kvs) = DictType"

fun truthy :: "'f host \<Rightarrow> 'f pyval \<Rightarrow> bool" where
  "truthy H VNone = False"
| "truthy H (VBool b) = b"
| "truthy H (VInt i) = (i \<noteq> 0)"
| "truthy H (VFloat f) = (float_value H f \<noteq> Fin 0)"
| "truthy H (VStr s) = (s \<noteq> [])"
| "truthy H (VList xs) = (xs \<noteq> [])"
| "truthy H (VDict kvs) = (kvs \<noteq> [])"

fun fv_eq :: "fvalue \<Rightarrow> fvalue \<Rightarrow> bool" where
  "fv_eq NaN y = False"
| "fv_eq x NaN = False"
| "fv_eq x y = (x = y)"

fun fv_lt :: "fvalue \<Rightarrow> fvalue \<Rightarrow> bool" where
  "fv_lt NaN y = False"
| "fv_lt x NaN = False"
| "fv_lt (Fin a) (Fin b) = (a < b)"
| "fv_lt x NInf = False"
| "fv_lt NInf y = True"
| "fv_lt PInf y = False"
| "fv_lt x PInf = True"

fun num_value :: "'f host \<Rightarrow> 'f pyval \<Rightarrow> fvalue option" where
  "num_value H (VBool b) = Some (Fin (if b then 1 else 0))"
| "num_value H (VInt i) = Some (Fin (of_int i))"
| "num_value H (VFloat f) = Some (float_value H f)"
| "num_value H v = None"

fun py_eq :: "'f host \<Rightarrow> 'f pyval \<Rightarrow> 'f pyval \<Rightarrow> bool"
  and list_eq :: "'f host \<Rightarrow> 'f pyval list \<Rightarrow> 'f pyval list \<Rightarrow> bool"
  and dict_le :: "'f host \<Rightarrow> (string \<times> 'f pyval) list \<Rightarrow> (string \<times> 'f pyval) list \<Rightarrow> bool"
where
  "py_eq H VNone b = (case b of VNone \<Rightarrow> True | _ \<Rightarrow> False)"
| "py_eq H (VBool x) b =
     (case num_value H b of Some y \<Rightarrow> fv_eq (Fin (if x then 1 else 0)) y | None \<Rightarrow> False)"
| "py_eq H (VInt i) b =
     (case num_value H b of Some y \<Rightarrow> fv_eq (Fin (of_int i)) y | None \<Rightarrow> False)"
| "py_eq H (VFloat f) b =
     (case num_value H b of Some y \<Rightarrow> fv_eq (float_value H f) y | None \<Rightarrow> False)"
| "py_eq H (VStr s) b = (case b of VStr t \<Rightarrow> s = t | _ \<Rightarrow> False)"
| "py_eq H (VList xs) b = (case b of VList ys \<Rightarrow> list_eq H xs ys | _ \<Rightarrow> False)"
| "py_eq H (VDict kvs) b =
     (case b of VDict kws \<Rightarrow> length kvs = length kws \<and> dict_le H kvs kws | _ \<Rightarrow> False)"
| "list_eq H [] ys = (ys = [])"
| "list_eq H (x # xs) ys =
     (case ys of [] \<Rightarrow> False | y # ys' \<Rightarrow> py_eq H x y \<and> list_eq H xs ys')"
| "dict_le H [] kws = True"
| "dict_le H ((k, v) # kvs) kws =
     (case map_of kws k of None \<Rightarrow> False | Some w \<Rightarrow> py_eq H v w \<and> dict_le H kvs kws)"


fun str_lt :: "string \<Rightarrow> string \<Rightarrow> bool" where
  "str_lt [] ys = (ys \<noteq> [])"
| "str_lt (x # xs) [] = False"
| "str_lt (x # xs) (y # ys) =
     (if x = y then str_lt xs ys else (of_char x :: nat) < of_char y)"

fun startswith :: "string \<Rightarrow> string \<Rightarrow> bool" where
  "startswith s [] = True"
| "startswith [] (p # ps) = False"
| "startswith (c # s) (p # ps) = (c = p \<and> startswith s ps)"

definition endswith :: "string \<Rightarrow> string \<Rightarrow> bool" where
  "endswith s p = startswith (rev s) (rev p)"

fun str_contains :: "string \<Rightarrow> string \<Rightarrow> bool" where
  "str_contains [] sub = (sub = [])"
| "str_contains (c # s) sub = (startswith (c # s) sub \<or> str_contains s sub)"

fun join :: "string \<Rightarrow> string list \<Rightarrow> string" where
  "join sep [] = []"
| "join sep [x] = x"
| "join sep (x # y # ys) = x @ sep @ join sep (y # ys)"

fun str_of_nat :: "nat \<Rightarrow> string" where
  "str_of_nat n =
     (if n < 10 then [''0123456789'' ! n]
      else str_of_nat (n div 10) @ [''0123456789'' ! (n mod 10)])"

definition str_of_int :: "int \<Rightarrow> string" where
  "str_of_int i = (if i < 0 then CHR ''-'' # str_of_nat (nat (- i)) else str_of_nat (nat i))"

fun py_str :: "'f host \<Rightarrow> 'f pyval \<Rightarrow> string"
  and py_repr :: "'f host \<Rightarrow> 'f pyval \<Rightarrow> string"
  and repr_items :: "'f host \<Rightarrow> 'f pyval list \<Rightarrow> string list"
  and repr_pairs :: "'f host \<Rightarrow> (string \<times> 'f pyval) list \<Rightarrow> string list"
where
  "py_str H VNone = ''None''"
| "py_str H (VBool b) = (if b then ''True'' else ''False'')"
| "py_str H (VInt i) = str_of_int i"
| "py_str H (VFloat f) = float_str H f"
| "py_str H (VStr s) = s"
| "py_str H (VList xs) = ''['' @ join '', '' (repr_items H xs) @ '']''"
| "py_str H (VDict kvs) = ''{'' @ join '', '' (repr_pairs H kvs) @ ''}''"
| "py_repr H (VStr s) = str_repr H s"
| "py_repr H VNone = py_str H VNone"
| "py_repr H (VBool b) = py_str H (VBool b)"
| "py_repr H (VInt i) = py_str H (VInt i)"
| "py_repr H (VFloat f) = py_str H (VFloat f)"
| "py_repr H (VList xs) = py_str H (VList xs)"
| "py_repr H (VDict kvs) = py_str H (VDict kvs)"
| "repr_items H [] = []"
| "repr_items H (x # xs) = py_repr H x # repr_items H xs"
| "repr_pairs H [] = []"
| "repr_pairs H ((k, v) # kvs) = (str_repr H k @ '': '' @ py_repr H v) # repr_pairs H kvs"

definition int_to_float :: "'f host \<Rightarrow> int \<Rightarrow> pyerr + 'f" where
  "int_to_float H i = (case float_of_int H i of None \<Rightarrow> Inl OverflowError | Some f \<Rightarrow> Inr f)"

fun py_float :: "'f host \<Rightarrow> 'f pyval \<Rightarrow> pyerr + 'f" where
  "py_float H VNone = Inl TypeError"
| "py_float H (VBool b) = int_to_float H (if b then 1 else 0)"
| "py_float H (VInt i) = int_to_float H i"
| "py_float H (VFloat f) = Inr f"
| "py_float H (VStr s) = (case float_of_str H s of None \<Rightarrow> Inl ValueError | Some f \<Rightarrow> Inr f)"
| "py_float H (VList xs) = Inl TypeError"
| "py_float H (VDict kvs) = Inl TypeError"

fun py_lt :: "'f host \<Rightarrow> 'f pyval \<Rightarrow> 'f pyval \<Rightarrow> pyerr + bool"
  and list_lt :: "'f host \<Rightarrow> 'f pyval list \<Rightarrow> 'f pyval list \<Rightarrow> pyerr + bool"
where
  "py_lt H VNone b = Inl TypeError"
| "py_lt H (VBool x) b =
     (case num_value H b of Some y \<Rightarrow> Inr (fv_lt (Fin (if x then 1 else 0)) y)
      | None \<Rightarrow> Inl TypeError)"
| "py_lt H (VInt i) b =
     (case num_value H b of Some y \<Rightarrow> Inr (fv_lt (Fin (of_int i)) y) | None \<Rightarrow> Inl TypeError)"
| "py_lt H (VFloat f) b =
     (case num_value H b of Some y \<Rightarrow> Inr (fv_lt (float_value H f) y) | None \<Rightarrow> Inl TypeError)"
| "py_lt H (VStr s) b = (case b of VStr t \<Rightarrow> Inr (str_lt s t) | _ \<Rightarrow> Inl TypeError)"
| "py_lt H (VList xs) b = (case b of VList ys \<Rightarrow> list_lt H xs ys | _ \<Rightarrow> Inl TypeError)"
| "py_lt H (VDict kvs) b = Inl TypeError"
| "list_lt H [] ys = Inr (ys \<noteq> [])"
| "list_lt H (x # xs) ys =
     (case ys of [] \<Rightarrow> Inr False
      | y # ys' \<Rightarrow> if py_eq H x y then list_lt H xs ys' else py_lt H x y)"

fun min_loop :: "'f host \<Rightarrow> 'f pyval \<Rightarrow> 'f pyval list \<Rightarrow> pyerr + 'f pyval" where
  "min_loop H cur [] = Inr cur"
| "min_loop H cur (item # rest) =
     (case py_lt H item cur of Inl e \<Rightarrow> Inl e
      | Inr b \<Rightarrow> min_loop H (if b then item else cur) rest)"

fun max_loop :: "'f host \<Rightarrow> 'f pyval \<Rightarrow> 'f pyval list \<Rightarrow> pyerr + 'f pyval" where
  "max_loop H cur [] = Inr cur"
| "max_loop H cur (item # rest) =
     (case py_lt H cur item of Inl e \<Rightarrow> Inl e
      | Inr b \<Rightarrow> max_loop H (if b then item else cur) rest)"

definition py_min :: "'f host \<Rightarrow> 'f pyval list \<Rightarrow> pyerr + 'f pyval" where
  "py_min H values = (case values of [] \<Rightarrow> Inl ValueError | v # rest \<Rightarrow> min_loop H v rest)"

definition py_max :: "'f host \<Rightarrow> 'f pyval list \<Rightarrow> pyerr + 'f pyval" where
  "py_max H values = (case values of [] \<Rightarrow> Inl ValueError | v # rest \<Rightarrow> max_loop H v rest)"

fun hashable :: "'f pyval \<Rightarrow> bool" where
  "hashable (VList xs) = False"
| "hashable (VDict kvs) = False"
| "hashable v = True"

fun py_in :: "'f host \<Rightarrow> 'f pyval \<Rightarrow> 'f pyval \<Rightarrow> pyerr + bool" where
  "py_in H needle (VList xs) = Inr (list_ex (\<lambda>x. py_eq H x needle) xs)"
| "py_in H needle (VDict kvs) =
     (if \<not> hashable needle then Inl TypeError
      else case needle of VStr k \<Rightarrow> Inr (map_of kvs k \<noteq> None) | _ \<Rightarrow> Inr False)"
| "py_in H needle (VStr h) =
     (case needle of VStr n \<Rightarrow> Inr (str_contains h n) | _ \<Rightarrow> Inl TypeError)"
| "py_in H needle haystack = Inl TypeError"

fun dict_get :: "(string \<times> 'f pyval) list \<Rightarrow> 'f pyval \<Rightarrow> 'f pyval \<Rightarrow> pyerr + 'f pyval" where
  "dict_get kvs (VStr k) dflt = (case map_of kvs k of Some v \<Rightarrow> Inr v | None \<Rightarrow> Inr dflt)"
| "dict_get kvs (VList xs) dflt = Inl TypeError"
| "dict_get kvs (VDict ks) dflt = Inl TypeError"
| "dict_get kvs key dflt = Inr dflt"


section \<open>Standard operators (evaluator.py: _soft_eq, _compare, _apply_op)\<close>

text \<open>
  \<open>soft_eq\<close> is \<^verbatim>\<open>RuleEngine._soft_eq\<close>: \<^verbatim>\<open>isinstance(b, (int, float))\<close> holds of
  booleans too, and \<^verbatim>\<open>float(a)\<close> of a string raises nothing but ValueError.
  \<open>compare\<close> is \<^verbatim>\<open>RuleEngine._compare\<close>; its \<^verbatim>\<open>except\<close> clause catches ValueError and
  TypeError only. \<open>apply_op\<close> is \<^verbatim>\<open>RuleEngine._apply_op\<close>, cut into the groups its
  comments name; a group answers \<open>None\<close> where the source falls through to the next
  test. \<open>sum_floats\<close> is \<^verbatim>\<open>sum(float(v) for v in values)\<close>, starting from the integer 0
  and adding from the left, and \<open>prod_floats\<close> is the loop of \<^verbatim>\<open>*\<close>. The branch
  \<^verbatim>\<open>missing\<close> reads a name \<^verbatim>\<open>data\<close> that \<^verbatim>\<open>_apply_op\<close> does not bind: it raises
  NameError as soon as the comprehension tests one value.
\<close>

definition isinstance_str :: "'f pyval \<Rightarrow> bool" where
  "isinstance_str v = (py_type v = StrType)"

definition isinstance_int_float :: "'f pyval \<Rightarrow> bool" where
  "isinstance_int_float v = (py_type v = BoolType \<or> py_type v = IntType \<or> py_type v = FloatType)"

definition soft_eq :: "'f host \<Rightarrow> 'f pyval \<Rightarrow> 'f pyval \<Rightarrow> bool" where
  "soft_eq H a b =
     (if a = VNone \<and> b = VNone then True
      else if a = VNone \<or> b = VNone then False
      else if isinstance_str a \<and> isinstance_int_float b then
        (case py_float H a of Inr f \<Rightarrow> py_eq H (VFloat f) b | Inl e \<Rightarrow> False)
      else if isinstance_str b \<and> isinstance_int_float a then
        (case py_float H b of Inr f \<Rightarrow> py_eq H a (VFloat f) | Inl e \<Rightarrow> False)
      else py_eq H a b)"

definition compare :: "'f host \<Rightarrow> 'f pyval \<Rightarrow> 'f pyval \<Rightarrow> pyerr + int" where
  "compare H a b =
     (case (case py_float H a of Inl e \<Rightarrow> Inl e
            | Inr a_num \<Rightarrow> (case py_float H b of Inl e \<Rightarrow> Inl e
                            | Inr b_num \<Rightarrow> Inr (float_value H a_num, float_value H b_num))) of
        Inr (x, y) \<Rightarrow> Inr (if fv_lt x y then - 1 else if fv_lt y x then 1 else 0)
      | Inl e \<Rightarrow>
          if e = ValueError \<or> e = TypeError then
            Inr (if str_lt (py_str H a) (py_str H b) then - 1
                 else if str_lt (py_str H b) (py_str H a) then 1 else 0)
          else Inl e)"

definition on_ok :: "('a \<Rightarrow> 'b) \<Rightarrow> pyerr + 'a \<Rightarrow> pyerr + 'b" where
  "on_ok g r = (case r of Inl e \<Rightarrow> Inl e | Inr x \<Rightarrow> Inr (g x))"

definition num_add :: "'f host \<Rightarrow> 'f pyval \<Rightarrow> 'f \<Rightarrow> pyerr + 'f pyval" where
  "num_add H acc f =
     (case acc of VFloat a \<Rightarrow> Inr (VFloat (float_add H a f))
      | VInt i \<Rightarrow> on_ok (\<lambda>a. VFloat (float_add H a f)) (int_to_float H i)
      | _ \<Rightarrow> Inl TypeError)"

definition num_mul :: "'f host \<Rightarrow> 'f pyval \<Rightarrow> 'f \<Rightarrow> pyerr + 'f pyval" where
  "num_mul H acc f =
     (case acc of VFloat a \<Rightarrow> Inr (VFloat (float_mul H a f))
      | VInt i \<Rightarrow> on_ok (\<lambda>a. VFloat (float_mul H a f)) (int_to_float H i)
      | _ \<Rightarrow> Inl TypeError)"

definition float_minus :: "'f host \<Rightarrow> 'f \<Rightarrow> 'f pyval \<Rightarrow> pyerr + 'f pyval" where
  "float_minus H f t =
     (case t of VFloat b \<Rightarrow> Inr (VFloat (float_sub H f b))
      | VInt i \<Rightarrow> on_ok (\<lambda>b. VFloat (float_sub H f b)) (int_to_float H i)
      | _ \<Rightarrow> Inl TypeError)"

fun sum_floats :: "'f host \<Rightarrow> 'f pyval \<Rightarrow> 'f pyval list \<Rightarrow> pyerr + 'f pyval" where
  "sum_floats H acc [] = Inr acc"
| "sum_floats H acc (v # vs) =
     (case py_float H v of Inl e \<Rightarrow> Inl e
      | Inr f \<Rightarrow> (case num_add H acc f of Inl e \<Rightarrow> Inl e | Inr acc' \<Rightarrow> sum_floats H acc' vs))"

fun prod_floats :: "'f host \<Rightarrow> 'f pyval \<Rightarrow> 'f pyval list \<Rightarrow> pyerr + 'f pyval" where
  "prod_floats H result [] = Inr result"
| "prod_floats H result (v # vs) =
     (case py_float H v of Inl e \<Rightarrow> Inl e
      | Inr f \<Rightarrow> (case num_mul H result f of Inl e \<Rightarrow> Inl e
                  | Inr result' \<Rightarrow> prod_floats H result' vs))"

definition logic_ops :: "'f host \<Rightarrow> string \<Rightarrow> 'f pyval list \<Rightarrow> (pyerr + 'f pyval) option" where
  "logic_ops H op values =
     (if op = ''and'' then Some (Inr (VBool (list_all (truthy H) values)))
      else if op = ''or'' then Some (Inr (VBool (list_ex (truthy H) values)))
      else if op = ''!'' then
        Some (Inr (VBool (case values of [] \<Rightarrow> True | v # _ \<Rightarrow> \<not> truthy H v)))
      else if op = ''!!'' then
        Some (Inr (VBool (case values of [] \<Rightarrow> False | v # _ \<Rightarrow> truthy H v)))
      else None)"

definition comparison_ops :: "'f host \<Rightarrow> string \<Rightarrow> 'f pyval list \<Rightarrow> (pyerr + 'f pyval) option" where
  "comparison_ops H op values =
     (case values of
        a # b # _ \<Rightarrow>
          if op = ''=='' then Some (Inr (VBool (soft_eq H a b)))
          else if op = ''==='' then Some (Inr (VBool (py_type a = py_type b \<and> py_eq H a b)))
          else if op = ''!='' then Some (Inr (VBool (\<not> soft_eq H a b)))
          else if op = ''!=='' then Some (Inr (VBool (\<not> (py_type a = py_type b \<and> py_eq H a b))))
          else if op = ''>'' then Some (on_ok (\<lambda>c. VBool (c > 0)) (compare H a b))
          else if op = ''>='' then Some (on_ok (\<lambda>c. VBool (c \<ge> 0)) (compare H a b))
          else if op = ''<'' then Some (on_ok (\<lambda>c. VBool (c < 0)) (compare H a b))
          else if op = ''<='' then Some (on_ok (\<lambda>c. VBool (c \<le> 0)) (compare H a b))
          else None
      | _ \<Rightarrow> None)"

definition string_ops :: "'f host \<Rightarrow> string \<Rightarrow> 'f pyval list \<Rightarrow> (pyerr + 'f pyval) option" where
  "string_ops H op values =
     (if op = ''in'' then
        Some (case values of
          needle # haystack # _ \<Rightarrow>
            (case haystack of
               VNone \<Rightarrow> Inr (VBool False)
             | VStr h \<Rightarrow>
                 Inr (VBool (str_contains (str_lower H h) (str_lower H (py_str H needle))))
             | _ \<Rightarrow> on_ok VBool (py_in H needle haystack))
        | _ \<Rightarrow> Inr (VBool False))
      else if op = ''cat'' then Some (Inr (VStr (concat (map (py_str H) values))))
      else if op = ''_contains'' then
        Some (case values of
          v0 # v1 # _ \<Rightarrow>
            Inr (VBool (if truthy H v0
                        then str_contains (str_lower H (py_str H v0)) (str_lower H (py_str H v1))
                        else False))
        | _ \<Rightarrow> Inr (VBool False))
      else if op = ''_startswith'' then
        Some (case values of
          v0 # v1 # _ \<Rightarrow>
            Inr (VBool (if truthy H v0
                        then startswith (str_lower H (py_str H v0)) (str_lower H (py_str H v1))
                        else False))
        | _ \<Rightarrow> Inr (VBool False))
      else if op = ''_endswith'' then
        Some (case values of
          v0 # v1 # _ \<Rightarrow>
            Inr (VBool (if truthy H v0
                        then endswith (str_lower H (py_str H v0)) (str_lower H (py_str H v1))
                        else False))
        | _ \<Rightarrow> Inr (VBool False))
      else if op = ''_is_empty'' then
        Some (let v = (case values of [] \<Rightarrow> VNone | v0 # _ \<Rightarrow> v0)
              in Inr (VBool (v = VNone \<or> py_eq H v (VStr []) \<or> py_eq H v (VList []))))
      else if op = ''_is_not_empty'' then
        Some (let v = (case values of [] \<Rightarrow> VNone | v0 # _ \<Rightarrow> v0)
              in Inr (VBool (v \<noteq> VNone \<and> \<not> py_eq H v (VStr []) \<and> \<not> py_eq H v (VList []))))
      else None)"

definition arithmetic_ops :: "'f host \<Rightarrow> string \<Rightarrow> 'f pyval list \<Rightarrow> (pyerr + 'f pyval) option" where
  "arithmetic_ops H op values =
     (if op = ''+'' then
        Some (case values of
          [v] \<Rightarrow> on_ok VFloat (py_float H v)
        | _ \<Rightarrow> sum_floats H (VInt 0) values)
      else if op = ''-'' then
        Some (case values of
          [] \<Rightarrow> Inl IndexError
        | [v] \<Rightarrow> on_ok (\<lambda>f. VFloat (float_neg H f)) (py_float H v)
        | v # rest \<Rightarrow>
            (case py_float H v of Inl e \<Rightarrow> Inl e
             | Inr f \<Rightarrow> (case sum_floats H (VInt 0) rest of Inl e \<Rightarrow> Inl e
                         | Inr t \<Rightarrow> float_minus H f t)))
      else if op = ''*'' then Some (prod_floats H (VInt 1) values)
      else if op = ''/'' then
        Some (case values of
          v0 # v1 # _ \<Rightarrow>
            (case py_float H v1 of Inl e \<Rightarrow> Inl e
             | Inr d \<Rightarrow>
                 if float_value H d \<noteq> Fin 0 then
                   (case py_float H v0 of Inl e \<Rightarrow> Inl e
                    | Inr n \<Rightarrow> Inr (VFloat (float_truediv H n d)))
                 else Inr (VInt 0))
        | _ \<Rightarrow> Inr (VInt 0))
      else if op = ''%'' then
        Some (case values of
          v0 # v1 # _ \<Rightarrow>
            (case py_float H v0 of Inl e \<Rightarrow> Inl e
             | Inr n \<Rightarrow>
                 (case py_float H v1 of Inl e \<Rightarrow> Inl e
                  | Inr d \<Rightarrow>
                      if float_value H d = Fin 0 then Inl ZeroDivisionError
                      else Inr (VFloat (float_mod H n d))))
        | _ \<Rightarrow> Inr (VInt 0))
      else if op = ''min'' then Some (py_min H values)
      else if op = ''max'' then Some (py_max H values)
      else None)"

definition array_ops :: "'f host \<Rightarrow> string \<Rightarrow> 'f pyval list \<Rightarrow> (pyerr + 'f pyval) option" where
  "array_ops H op values =
     (if op = ''merge'' then
        Some (Inr (VList (concat (map (\<lambda>v. case v of VList xs \<Rightarrow> xs | _ \<Rightarrow> [v]) values))))
      else if op = ''missing'' then
        Some (if values = [] then Inr (VList []) else Inl NameError)
      else if op = ''?:'' then
        Some (case values of
          v0 # v1 # v2 # _ \<Rightarrow> Inr (if truthy H v0 then v1 else v2)
        | _ \<Rightarrow> Inr VNone)
      else None)"

definition apply_op :: "'f host \<Rightarrow> string \<Rightarrow> 'f pyval list \<Rightarrow> pyerr + 'f pyval" where
  "apply_op H op values =
     (case logic_ops H op values of Some r \<Rightarrow> r
      | None \<Rightarrow>
     (case comparison_ops H op values of Some r \<Rightarrow> r
      | None \<Rightarrow>
     (case string_ops H op values of Some r \<Rightarrow> r
      | None \<Rightarrow>
     (case arithmetic_ops H op values of Some r \<Rightarrow> r
      | None \<Rightarrow>
     (case array_ops H op values of Some r \<Rightarrow> r
      | None \<Rightarrow> Inr VNone)))))"

section \<open>The evaluator (evaluator.py: _eval, _op_var, _op_array, _op_if)\<close>

text \<open>
  A registered operator is a Python callable: it gets the evaluated operands and the
  current record, may raise, and may have effects. The effects are a state \<open>'s\<close> that
  the evaluator threads through every call in the order the source makes them, so that
  an operand that is not evaluated leaves the state as it was. The registry is the dict
  \<^verbatim>\<open>self._custom_ops\<close>.

  \<open>eval\<close> is \<^verbatim>\<open>RuleEngine._eval\<close>; the public \<^verbatim>\<open>evaluate(rules, data)\<close> is the same call
  on a rule given in wire form. \<open>op_array_loop\<close> is the \<^verbatim>\<open>for item in array\<close> loop of
  \<^verbatim>\<open>_op_array\<close>, \<open>op_if\<close> the \<^verbatim>\<open>while\<close> loop of \<^verbatim>\<open>_op_if\<close> over the operands that are
  left (two are consumed per round; one left over is the trailing else), and
  \<open>eval_operands\<close> the comprehension \<^verbatim>\<open>[self._eval(o, data) for o in operands]\<close>.
\<close>

type_synonym ('f, 's) custom_op =
  "'f pyval list \<Rightarrow> 'f pyval \<Rightarrow> 's \<Rightarrow> (pyerr + 'f pyval) \<times> 's"

type_synonym ('f, 's) registry = "string \<Rightarrow> ('f, 's) custom_op option"

definition register_operator ::
  "('f, 's) registry \<Rightarrow> string \<Rightarrow> ('f, 's) custom_op \<Rightarrow> ('f, 's) registry" where
  "register_operator custom_ops name func = custom_ops(name \<mapsto> func)"

definition normalize_operands :: "'f pyval \<Rightarrow> 'f pyval list" where
  "normalize_operands operands = (case operands of VList xs \<Rightarrow> xs | _ \<Rightarrow> [operands])"

function (sequential) eval :: "'f host \<Rightarrow> ('f, 's) registry \<Rightarrow> 'f pyval \<Rightarrow> 'f pyval \<Rightarrow> 's
               \<Rightarrow> (pyerr + 'f pyval) \<times> 's"
  and op_var :: "'f host \<Rightarrow> ('f, 's) registry \<Rightarrow> 'f pyval list \<Rightarrow> 'f pyval \<Rightarrow> 's
               \<Rightarrow> (pyerr + 'f pyval) \<times> 's"
  and op_array :: "'f host \<Rightarrow> ('f, 's) registry \<Rightarrow> string \<Rightarrow> 'f pyval list \<Rightarrow> 'f pyval \<Rightarrow> 's
               \<Rightarrow> (pyerr + 'f pyval) \<times> 's"
  and op_array_loop :: "'f host \<Rightarrow> ('f, 's) registry \<Rightarrow> string \<Rightarrow> 'f pyval \<Rightarrow> 'f pyval list \<Rightarrow> 's
               \<Rightarrow> (pyerr + 'f pyval) \<times> 's"
  and op_if :: "'f host \<Rightarrow> ('f, 's) registry \<Rightarrow> 'f pyval list \<Rightarrow> 'f pyval \<Rightarrow> 's
               \<Rightarrow> (pyerr + 'f pyval) \<times> 's"
  and eval_operands :: "'f host \<Rightarrow> ('f, 's) registry \<Rightarrow> 'f pyval list \<Rightarrow> 'f pyval \<Rightarrow> 's
               \<Rightarrow> (pyerr + 'f pyval list) \<times> 's"
where
  "eval H R (VDict []) data s = (Inr (VBool True), s)"
| "eval H R (VDict ((op, v) # entries)) data s =
     (if op = ''var'' then op_var H R (normalize_operands v) data s
      else if op = ''some'' \<or> op = ''all'' \<or> op = ''none'' then
        op_array H R op (normalize_operands v) data s
      else if op = ''if'' then op_if H R (normalize_operands v) data s
      else
        (case eval_operands H R (normalize_operands v) data s of
           (Inl e, s') \<Rightarrow> (Inl e, s')
         | (Inr values, s') \<Rightarrow>
             (case R op of
                Some func \<Rightarrow> func values data s'
              | None \<Rightarrow> (apply_op H op values, s'))))"
| "eval H R VNone data s = (Inr VNone, s)"
| "eval H R (VBool b) data s = (Inr (VBool b), s)"
| "eval H R (VInt i) data s = (Inr (VInt i), s)"
| "eval H R (VFloat f) data s = (Inr (VFloat f), s)"
| "eval H R (VStr t) data s = (Inr (VStr t), s)"
| "eval H R (VList xs) data s = (Inr (VList xs), s)"
| "op_var H R [] data s = (Inr data, s)"
| "op_var H R (operand # others) data s =
     (case eval H R operand data s of
        (Inl e, s') \<Rightarrow> (Inl e, s')
      | (Inr var_name, s') \<Rightarrow>
          (let dflt = (case others of [] \<Rightarrow> VNone | d # _ \<Rightarrow> d) in
           if py_eq H var_name (VStr []) \<or> var_name = VNone then (Inr data, s')
           else (case data of
                   VDict kvs \<Rightarrow> (dict_get kvs var_name dflt, s')
                 | _ \<Rightarrow> (Inr dflt, s'))))"
| "op_array H R op [operand, condition] data s =
     (case eval H R operand data s of
        (Inl e, s') \<Rightarrow> (Inl e, s')
      | (Inr array, s') \<Rightarrow>
          (case array of
             VList items \<Rightarrow>
               if length items = 0 then (Inr (VBool (op \<noteq> ''some'' \<and> op \<noteq> ''all'')), s')
               else op_array_loop H R op condition items s'
           | _ \<Rightarrow> (Inr (VBool (op = ''none'')), s')))"
| "op_array H R op operands data s = (Inr (VBool (op \<noteq> ''some'')), s)"
| "op_array_loop H R op condition [] s = (Inr (VBool (op \<noteq> ''some'')), s)"
| "op_array_loop H R op condition (item # items) s =
     (case eval H R condition item s of
        (Inl e, s') \<Rightarrow> (Inl e, s')
      | (Inr result, s') \<Rightarrow>
          if op = ''some'' \<and> truthy H result then (Inr (VBool True), s')
          else if op = ''all'' \<and> \<not> truthy H result then (Inr (VBool False), s')
          else if op = ''none'' \<and> truthy H result then (Inr (VBool False), s')
          else op_array_loop H R op condition items s')"
| "op_if H R (c # v # operands) data s =
     (case eval H R c data s of
        (Inl e, s') \<Rightarrow> (Inl e, s')
      | (Inr r, s') \<Rightarrow>
          if truthy H r then eval H R v data s' else op_if H R operands data s')"
| "op_if H R [v] data s = eval H R v data s"
| "op_if H R [] data s = (Inr VNone, s)"
| "eval_operands H R [] data s = (Inr [], s)"
| "eval_operands H R (operand # operands) data s =
     (case eval H R operand data s of
        (Inl e, s') \<Rightarrow> (Inl e, s')
      | (Inr v, s') \<Rightarrow>
          (case eval_operands H R operands data s' of
             (Inl e, s'') \<Rightarrow> (Inl e, s'')
           | (Inr vs, s'') \<Rightarrow> (Inr (v # vs), s'')))"
  by pat_completeness auto

termination
  apply (relation "measures
    [\<lambda>x. case x of
        Inl (Inl (H, R, rules, data, s)) \<Rightarrow> size rules
      | Inl (Inr (Inl (H, R, operands, data, s))) \<Rightarrow> size_list size operands
      | Inl (Inr (Inr (H, R, op, operands, data, s))) \<Rightarrow> size_list size operands
      | Inr (Inl (H, R, op, condition, items, s)) \<Rightarrow> size condition + 1
      | Inr (Inr (Inl (H, R, operands, data, s))) \<Rightarrow> size_list size operands
      | Inr (Inr (Inr (H, R, operands, data, s))) \<Rightarrow> size_list size operands,
     \<lambda>x. case x of
        Inr (Inl (H, R, op, condition, items, s)) \<Rightarrow> length items
      | _ \<Rightarrow> 0]")
  apply (auto simp: normalize_operands_def split: pyval.splits)
  done

section \<open>The operator vocabulary of the evaluator\<close>

text \<open>
  \<open>control_ops\<close> are the tokens \<^verbatim>\<open>_eval\<close> dispatches itself, before it evaluates any
  operand; \<open>standard_ops\<close> are the tokens \<^verbatim>\<open>_apply_op\<close> tests for.
\<close>

definition control_ops :: "string list" where
  "control_ops = [''var'', ''some'', ''all'', ''none'', ''if'']"

definition standard_ops :: "string list" where
  "standard_ops =
     [''and'', ''or'', ''!'', ''!!'', ''=='', ''==='', ''!='', ''!=='', ''>'', ''>='', ''<'', ''<='',
      ''in'', ''cat'', ''_contains'', ''_startswith'', ''_endswith'', ''_is_empty'',
      ''_is_not_empty'', ''+'', ''-'', ''*'', ''/'', ''%'', ''min'', ''max'', ''merge'',
      ''missing'', ''?:'']"

section \<open>Runs of conditions\<close>

text \<open>
  Two notions used to state what the control operators do. \<open>falsy_run\<close> says that the
  conditions \<open>cs\<close>, evaluated one after the other against the record, each returned a
  falsy value, and gives the state after the last one; it is \<open>None\<close> when a condition
  is truthy or raises. \<open>cond_run\<close> says the same of one condition evaluated against each
  item of a list in turn, the item being the record, every result having the truth
  value \<open>b\<close>. \<open>branches\<close> lays (condition, value) pairs out as the operand list of
  \<^verbatim>\<open>if\<close>.
\<close>

fun falsy_run :: "'f host \<Rightarrow> ('f, 's) registry \<Rightarrow> 'f pyval \<Rightarrow> 'f pyval list \<Rightarrow> 's \<Rightarrow> 's option" where
  "falsy_run H R data [] s = Some s"
| "falsy_run H R data (c # cs) s =
     (case eval H R c data s of
        (Inr r, s') \<Rightarrow> if truthy H r then None else falsy_run H R data cs s'
      | (Inl e, s') \<Rightarrow> None)"

definition branches :: "('f pyval \<times> 'f pyval) list \<Rightarrow> 'f pyval list" where
  "branches cvs = concat (map (\<lambda>(c, v). [c, v]) cvs)"

fun cond_run :: "'f host \<Rightarrow> ('f, 's) registry \<Rightarrow> 'f pyval \<Rightarrow> bool \<Rightarrow> 'f pyval list \<Rightarrow> 's \<Rightarrow> 's option" where
  "cond_run H R condition b [] s = Some s"
| "cond_run H R condition b (item # items) s =
     (case eval H R condition item s of
        (Inr r, s') \<Rightarrow> if truthy H r = b then cond_run H R condition b items s' else None
      | (Inl e, s') \<Rightarrow> None)"

section \<open>A host for running the model\<close>

text \<open>
  \<open>ideal_host\<close> instantiates the primitives so that concrete rules can be run: a float
  is the rational it denotes and arithmetic is exact. It reads only plain decimal
  integers as float literals, prints a float as its integer part followed by \<^verbatim>\<open>.0\<close>,
  quotes a string without escaping, and lower-cases ASCII letters only. The concrete
  runs below use it on inputs where Python agrees with it.
\<close>

definition digit_value :: "char \<Rightarrow> nat option" where
  "digit_value c = map_of (zip ''0123456789'' [0, 1, 2, 3, 4, 5, 6, 7, 8, 9]) c"

fun parse_digits :: "nat \<Rightarrow> string \<Rightarrow> nat option" where
  "parse_digits acc [] = Some acc"
| "parse_digits acc (c # cs) =
     (case digit_value c of None \<Rightarrow> None | Some d \<Rightarrow> parse_digits (10 * acc + d) cs)"

definition parse_decimal :: "string \<Rightarrow> rat option" where
  "parse_decimal t =
     (case t of
        [] \<Rightarrow> None
      | c # cs \<Rightarrow>
          if c = CHR ''-'' then
            (if cs = [] then None else map_option (\<lambda>n. - of_nat n) (parse_digits 0 cs))
          else map_option of_nat (parse_digits 0 t))"

definition lower_ascii :: "char \<Rightarrow> char" where
  "lower_ascii c =
     (let n = (of_char c :: nat) in if 65 \<le> n \<and> n \<le> 90 then char_of (n + 32) else c)"

definition ideal_host :: "rat host" where
  "ideal_host =
     \<lparr>float_value = Fin,
      float_of_int = (\<lambda>i. Some (of_int i)),
      float_of_str = parse_decimal,
      float_add = (\<lambda>a b. a + b),
      float_sub = (\<lambda>a b. a - b),
      float_mul = (\<lambda>a b. a * b),
      float_truediv = (\<lambda>a b. a / b),
      float_mod = (\<lambda>a b. a - b * of_int \<lfloor>a / b\<rfloor>),
      float_neg = (\<lambda>a. - a),
      float_str = (\<lambda>a. str_of_int \<lfloor>a\<rfloor> @ ''.0''),
      str_repr = (\<lambda>t. CHR 0x27 # t @ [CHR 0x27]),
      str_lower = map lower_ascii\<rparr>"

definition no_custom_ops :: "(rat, unit) registry" where
  "no_custom_ops = Map.empty"

text \<open>
  A registry with one operator, \<^verbatim>\<open>tick\<close>, whose effect is to count its invocations: the
  state is the counter. It answers true.
\<close>

definition tick :: "(rat, nat) custom_op" where
  "tick values data n = (Inr (VBool True), Suc n)"

definition counting_ops :: "(rat, nat) registry" where
  "counting_ops = register_operator Map.empty ''tick'' tick"

text \<open>
  The operands of the rule \<^verbatim>\<open>{"some": [{"var": "tags"}, {"in": [{"var": ""}, ["vip", "admin"]]}]}\<close>.
\<close>

definition tags_var :: "rat pyval" where
  "tags_var = VDict [(''var'', VStr ''tags'')]"

definition in_vip :: "rat pyval" where
  "in_vip = VDict [(''in'', VList [VDict [(''var'', VStr [])], VList [VStr ''vip'', VStr ''admin'']])]"

section \<open>Facts about dispatch and the standard operator table\<close>

lemmas run_simps = no_custom_ops_def normalize_operands_def apply_op_def logic_ops_def
  comparison_ops_def string_ops_def arithmetic_ops_def array_ops_def int_to_float_def
  on_ok_def py_min_def py_max_def soft_eq_def isinstance_str_def isinstance_int_float_def
  ideal_host_def parse_decimal_def digit_value_def register_operator_def
  counting_ops_def tick_def

lemma eval_not_control:
  "op \<notin> set control_ops \<Longrightarrow>
   eval H R (VDict ((op, v) # entries)) data s =
     (case eval_operands H R (normalize_operands v) data s of
        (Inl e, s') \<Rightarrow> (Inl e, s')
      | (Inr values, s') \<Rightarrow>
          (case R op of Some func \<Rightarrow> func values data s'
           | None \<Rightarrow> (apply_op H op values, s')))"
  by (simp add: control_ops_def)

lemma apply_op_unknown:
  "op \<notin> set standard_ops \<Longrightarrow> apply_op H op values = Inr VNone"
  by (simp add: standard_ops_def apply_op_def logic_ops_def comparison_ops_def string_ops_def
      arithmetic_ops_def array_ops_def split: list.splits)

lemma apply_op_and: "apply_op H ''and'' values = Inr (VBool (list_all (truthy H) values))"
  by (simp add: apply_op_def logic_ops_def)

lemma apply_op_or: "apply_op H ''or'' values = Inr (VBool (list_ex (truthy H) values))"
  by (simp add: apply_op_def logic_ops_def)

lemma apply_op_soft:
  "apply_op H ''=='' (a # b # values) = Inr (VBool (soft_eq H a b))"
  by (simp add: apply_op_def logic_ops_def comparison_ops_def)

lemma apply_op_strict:
  "apply_op H ''==='' (a # b # values) = Inr (VBool (py_type a = py_type b \<and> py_eq H a b))"
  by (simp add: apply_op_def logic_ops_def comparison_ops_def)

lemma eval_not_dict: "py_type rules \<noteq> DictType \<Longrightarrow> eval H R rules data s = (Inr rules, s)"
  by (cases rules) simp_all

lemma eval_first_key:
  "eval H R (VDict ((op, v) # entries)) data s = eval H R (VDict [(op, v)]) data s"
  by simp

section \<open>Raising operators\<close>

text \<open>
  C1. The claim is that evaluation never raises and that every standard operator is
  covered. The code raises on well-formed rules: \<^verbatim>\<open>%\<close> has no test for a zero
  divisor (\<^verbatim>\<open>/\<close> has one and answers 0), \<^verbatim>\<open>min\<close> of no values raises ValueError, and
  \<^verbatim>\<open>missing\<close> reads the unbound name \<^verbatim>\<open>data\<close>. The theorem evaluates the code at these
  inputs, for every host whose floats of 0 and 1 exist and whose float of 0 is zero, and
  every registry that leaves the four tokens to the standard table.
\<close>

theorem C1_standard_operators_raise:
  assumes "float_of_int H 1 = Some one" and "float_of_int H 0 = Some zero"
    and "float_value H zero = Fin 0"
    and "R ''%'' = None" and "R ''/'' = None" and "R ''min'' = None" and "R ''missing'' = None"
  shows "eval H R (VDict [(''%'', VList [VInt 1, VInt 0])]) data s = (Inl ZeroDivisionError, s)
       \<and> eval H R (VDict [(''min'', VList [])]) data s = (Inl ValueError, s)
       \<and> eval H R (VDict [(''missing'', VList [VStr k])]) data s = (Inl NameError, s)
       \<and> eval H R (VDict [(''/'', VList [VInt 1, VInt 0])]) data s = (Inr (VInt 0), s)"
proof -
  have "eval H R (VDict [(''%'', VList [VInt 1, VInt 0])]) data s = (Inl ZeroDivisionError, s)"
    using assms
    by (simp add: normalize_operands_def apply_op_def logic_ops_def comparison_ops_def
        string_ops_def arithmetic_ops_def int_to_float_def)
  moreover have "eval H R (VDict [(''min'', VList [])]) data s = (Inl ValueError, s)"
    using assms
    by (simp add: normalize_operands_def apply_op_def logic_ops_def comparison_ops_def
        string_ops_def arithmetic_ops_def py_min_def)
  moreover have "eval H R (VDict [(''missing'', VList [VStr k])]) data s = (Inl NameError, s)"
    using assms
    by (simp add: normalize_operands_def apply_op_def logic_ops_def comparison_ops_def
        string_ops_def arithmetic_ops_def array_ops_def)
  moreover have "eval H R (VDict [(''/'', VList [VInt 1, VInt 0])]) data s = (Inr (VInt 0), s)"
    using assms
    by (simp add: normalize_operands_def apply_op_def logic_ops_def comparison_ops_def
        string_ops_def arithmetic_ops_def int_to_float_def)
  ultimately show ?thesis by simp
qed

theorem C1_standard_operators_raise_witness:
  "eval ideal_host no_custom_ops (VDict [(''%'', VList [VInt 1, VInt 0])]) (VDict []) ()
     = (Inl ZeroDivisionError, ())
   \<and> eval ideal_host no_custom_ops (VDict [(''min'', VList [])]) (VDict []) ()
     = (Inl ValueError, ())
   \<and> eval ideal_host no_custom_ops (VDict [(''missing'', VList [VStr ''a''])]) (VDict []) ()
     = (Inl NameError, ())
   \<and> eval ideal_host no_custom_ops (VDict [(''/'', VList [VInt 1, VInt 0])]) (VDict []) ()
     = (Inr (VInt 0), ())"
proof -
  have "float_of_int ideal_host 1 = Some 1" "float_of_int ideal_host 0 = Some 0"
    "float_value ideal_host 0 = Fin 0"
    by (simp_all add: ideal_host_def)
  moreover have "no_custom_ops ''%'' = None" "no_custom_ops ''/'' = None"
    "no_custom_ops ''min'' = None" "no_custom_ops ''missing'' = None"
    by (simp_all add: no_custom_ops_def)
  ultimately show ?thesis
    by (rule C1_standard_operators_raise)
qed

section \<open>Empty rules\<close>

text \<open>
  C2, as amended. For every record, the empty mapping evaluates to true. An operator
  with an empty operand list has no case of its own: \<^verbatim>\<open>{"and": []}\<close> evaluates to true
  (\<^verbatim>\<open>all([])\<close>) and \<^verbatim>\<open>{"or": []}\<close> to false (\<^verbatim>\<open>any([])\<close>), where the registry does
  not override the token.
\<close>

theorem C2_empty_rules:
  "eval H R (VDict []) data s = (Inr (VBool True), s)
   \<and> (R ''and'' = None \<longrightarrow>
        eval H R (VDict ((''and'', VList []) # entries)) data s = (Inr (VBool True), s))
   \<and> (R ''or'' = None \<longrightarrow>
        eval H R (VDict ((''or'', VList []) # entries)) data s = (Inr (VBool False), s))"
  by (simp add: normalize_operands_def apply_op_and apply_op_or)

theorem C2_empty_rules_witness:
  "no_custom_ops ''and'' = None \<and> no_custom_ops ''or'' = None
   \<and> eval ideal_host no_custom_ops (VDict []) (VDict []) () = (Inr (VBool True), ())
   \<and> eval ideal_host no_custom_ops (VDict [(''and'', VList [])]) (VDict []) ()
       = (Inr (VBool True), ())
   \<and> eval ideal_host no_custom_ops (VDict [(''or'', VList [])]) (VDict []) ()
       = (Inr (VBool False), ())"
proof -
  have n: "no_custom_ops ''and'' = None" "no_custom_ops ''or'' = None"
    by (simp_all add: no_custom_ops_def)
  from C2_empty_rules [of ideal_host no_custom_ops "VDict []" "()" "[]"] n
  show ?thesis by blast
qed

text \<open>The claim as stated fails: \<^verbatim>\<open>evaluate({"or": []}, {})\<close> is false.\<close>

theorem C2_or_empty_counterexample:
  "eval ideal_host no_custom_ops (VDict [(''or'', VList [])]) (VDict []) ()
     = (Inr (VBool False), ())
   \<and> eval ideal_host no_custom_ops (VDict [(''or'', VList [])]) (VDict []) ()
     \<noteq> (Inr (VBool True), ())"
  by (simp add: run_simps)

section \<open>Which inputs are operator nodes\<close>

text \<open>
  C4, as amended. An input that is not a mapping evaluates to itself; the empty mapping
  evaluates to true; every other mapping is an operator node on its first key, whatever
  further keys it has; and when that key is neither a control operator, nor registered,
  nor a token of the standard table, the operands are evaluated and the result is null
  (an exception of an operand propagates).
\<close>

theorem C4_dispatch_on_first_key:
  "(py_type rules \<noteq> DictType \<longrightarrow> eval H R rules data s = (Inr rules, s))
   \<and> eval H R (VDict []) data s = (Inr (VBool True), s)
   \<and> eval H R (VDict ((op, v) # entries)) data s = eval H R (VDict [(op, v)]) data s
   \<and> (op \<notin> set control_ops \<and> op \<notin> set standard_ops \<and> R op = None \<longrightarrow>
        eval H R (VDict ((op, v) # entries)) data s =
          (case eval_operands H R (normalize_operands v) data s of
             (Inl e, s') \<Rightarrow> (Inl e, s')
           | (Inr values, s') \<Rightarrow> (Inr VNone, s')))"
proof -
  have "eval H R (VDict ((op, v) # entries)) data s =
          (case eval_operands H R (normalize_operands v) data s of
             (Inl e, s') \<Rightarrow> (Inl e, s')
           | (Inr values, s') \<Rightarrow> (Inr VNone, s'))"
    if "op \<notin> set control_ops" "op \<notin> set standard_ops" "R op = None"
    unfolding eval_not_control [OF that(1)]
    by (simp add: that apply_op_unknown split: prod.splits sum.splits)
  then show ?thesis
    using eval_not_dict [of rules H R data s] eval_first_key [of H R op v entries data s]
    by simp
qed

theorem C4_dispatch_on_first_key_witness:
  "py_type (VStr ''NYC'' :: rat pyval) \<noteq> DictType
   \<and> ''foo'' \<notin> set control_ops \<and> ''foo'' \<notin> set standard_ops \<and> no_custom_ops ''foo'' = None
   \<and> eval ideal_host no_custom_ops (VStr ''NYC'') (VDict []) () = (Inr (VStr ''NYC''), ())
   \<and> eval ideal_host no_custom_ops (VDict [(''foo'', VInt 1), (''bar'', VInt 2)]) (VDict []) ()
       = (Inr VNone, ())"
proof -
  have h: "py_type (VStr ''NYC'' :: rat pyval) \<noteq> DictType"
    "''foo'' \<notin> set control_ops" "''foo'' \<notin> set standard_ops" "no_custom_ops ''foo'' = None"
    by (simp_all add: control_ops_def standard_ops_def no_custom_ops_def)
  from C4_dispatch_on_first_key [of "VStr ''NYC''" ideal_host no_custom_ops "VDict []" "()"
      "''foo''" "VInt 1" "[(''bar'', VInt 2)]"] h
  show ?thesis by (simp add: normalize_operands_def)
qed

text \<open>
  The claim as stated fails: a mapping whose single key is unknown, and a mapping with
  two keys, evaluate to null, not to themselves.
\<close>

theorem C4_literal_mapping_counterexample:
  "eval ideal_host no_custom_ops (VDict [(''foo'', VInt 1)]) (VDict []) () = (Inr VNone, ())
   \<and> eval ideal_host no_custom_ops (VDict [(''foo'', VInt 1)]) (VDict []) ()
       \<noteq> (Inr (VDict [(''foo'', VInt 1)]), ())
   \<and> eval ideal_host no_custom_ops (VDict [(''foo'', VInt 1), (''bar'', VInt 2)]) (VDict []) ()
       \<noteq> (Inr (VDict [(''foo'', VInt 1), (''bar'', VInt 2)]), ())"
  by (simp add: run_simps)

section \<open>Quantifiers with the wrong number of operands\<close>

text \<open>
  C10. When the operand list of \<^verbatim>\<open>some\<close>, \<^verbatim>\<open>all\<close> or \<^verbatim>\<open>none\<close> does not have exactly
  two elements, \<^verbatim>\<open>some\<close> is false and \<^verbatim>\<open>all\<close> and \<^verbatim>\<open>none\<close> are true, for every record;
  no operand is evaluated: the state is the one the evaluation started in.
\<close>

theorem C10_quantifier_arity:
  assumes "length (normalize_operands v) \<noteq> 2"
  shows "eval H R (VDict ((''some'', v) # entries)) data s = (Inr (VBool False), s)
       \<and> eval H R (VDict ((''all'', v) # entries)) data s = (Inr (VBool True), s)
       \<and> eval H R (VDict ((''none'', v) # entries)) data s = (Inr (VBool True), s)"
proof -
  have "op_array H R op (normalize_operands v) data s = (Inr (VBool (op \<noteq> ''some'')), s)" for op
    using assms by (cases "(H, R, op, normalize_operands v, data, s)" rule: op_array.cases) auto
  then show ?thesis by simp
qed

theorem C10_quantifier_arity_witness:
  "length (normalize_operands (VList [VDict [(''tick'', VList [])]] :: rat pyval)) \<noteq> 2
   \<and> eval ideal_host counting_ops (VDict [(''some'', VList [VDict [(''tick'', VList [])]])])
         (VDict []) 0 = (Inr (VBool False), 0)
   \<and> eval ideal_host counting_ops (VDict [(''all'', VList [VDict [(''tick'', VList [])]])])
         (VDict []) 0 = (Inr (VBool True), 0)
   \<and> eval ideal_host counting_ops (VDict [(''none'', VList [VDict [(''tick'', VList [])]])])
         (VDict []) 0 = (Inr (VBool True), 0)"
proof -
  have h: "length (normalize_operands (VList [VDict [(''tick'', VList [])]] :: rat pyval)) \<noteq> 2"
    by (simp add: normalize_operands_def)
  from C10_quantifier_arity [OF h, of ideal_host counting_ops "[]" "VDict []" 0] h
  show ?thesis by simp
qed

section \<open>Soft and strict equality\<close>

lemma py_eq_empty_str: "py_eq H v (VStr []) = (v = VStr [])"
  by (cases v) (auto split: pyval.splits)

lemma soft_eq_None_left: "soft_eq H VNone b = (b = VNone)"
  by (auto simp: soft_eq_def)

lemma soft_eq_None_right: "soft_eq H a VNone = (a = VNone)"
  by (auto simp: soft_eq_def)

lemma soft_eq_str_num:
  "isinstance_int_float b \<Longrightarrow>
   soft_eq H (VStr t) b =
     (case float_of_str H t of None \<Rightarrow> False | Some f \<Rightarrow> py_eq H (VFloat f) b)"
  by (cases b) (auto simp: soft_eq_def isinstance_str_def isinstance_int_float_def split: option.splits)

lemma soft_eq_num_str:
  "isinstance_int_float a \<Longrightarrow>
   soft_eq H a (VStr t) =
     (case float_of_str H t of None \<Rightarrow> False | Some f \<Rightarrow> py_eq H a (VFloat f))"
  by (cases a) (auto simp: soft_eq_def isinstance_str_def isinstance_int_float_def split: option.splits)

lemma soft_eq_direct:
  "a \<noteq> VNone \<Longrightarrow> b \<noteq> VNone \<Longrightarrow> \<not> (isinstance_str a \<and> isinstance_int_float b) \<Longrightarrow>
   \<not> (isinstance_str b \<and> isinstance_int_float a) \<Longrightarrow> soft_eq H a b = py_eq H a b"
  by (auto simp: soft_eq_def)

text \<open>
  C8. Soft equality: null equals only null; a string against a number is parsed by
  \<^verbatim>\<open>float\<close> and compared numerically, and is unequal when the parse fails; otherwise
  Python's \<^verbatim>\<open>==\<close> decides. ``Numeric'' is \<^verbatim>\<open>isinstance(x, (int, float))\<close>, which holds of
  booleans too. Strict equality is \<^verbatim>\<open>==\<close> together with equal types. The rule
  \<^verbatim>\<open>{"==": [{"var": "age"}, "25"]}\<close> on the record \<^verbatim>\<open>{"age": 25}\<close> is true on every host
  whose \<^verbatim>\<open>float("25")\<close> denotes 25, and the same rule with \<^verbatim>\<open>===\<close> is false.
\<close>

theorem C8_soft_and_strict_equality:
  "soft_eq H VNone b = (b = VNone)
   \<and> soft_eq H a VNone = (a = VNone)
   \<and> (isinstance_int_float b \<longrightarrow>
        soft_eq H (VStr t) b =
          (case float_of_str H t of None \<Rightarrow> False | Some f \<Rightarrow> py_eq H (VFloat f) b))
   \<and> (isinstance_int_float a \<longrightarrow>
        soft_eq H a (VStr t) =
          (case float_of_str H t of None \<Rightarrow> False | Some f \<Rightarrow> py_eq H a (VFloat f)))
   \<and> (a \<noteq> VNone \<and> b \<noteq> VNone \<and> \<not> (isinstance_str a \<and> isinstance_int_float b)
        \<and> \<not> (isinstance_str b \<and> isinstance_int_float a) \<longrightarrow>
        soft_eq H a b = py_eq H a b)
   \<and> apply_op H ''=='' (a # b # values) = Inr (VBool (soft_eq H a b))
   \<and> apply_op H ''==='' (a # b # values) = Inr (VBool (py_type a = py_type b \<and> py_eq H a b))
   \<and> (float_of_str H ''25'' = Some f25 \<and> float_value H f25 = Fin 25 \<and> R ''=='' = None \<longrightarrow>
        eval H R (VDict [(''=='', VList [VDict [(''var'', VStr ''age'')], VStr ''25''])])
          (VDict [(''age'', VInt 25)]) s = (Inr (VBool True), s))
   \<and> (R ''==='' = None \<longrightarrow>
        eval H R (VDict [(''==='', VList [VDict [(''var'', VStr ''age'')], VStr ''25''])])
          (VDict [(''age'', VInt 25)]) s = (Inr (VBool False), s))"
proof -
  have soft: "eval H R (VDict [(''=='', VList [VDict [(''var'', VStr ''age'')], VStr ''25''])])
          (VDict [(''age'', VInt 25)]) s = (Inr (VBool True), s)"
    if "float_of_str H ''25'' = Some f25" "float_value H f25 = Fin 25" "R ''=='' = None"
    using that
    by (simp add: normalize_operands_def apply_op_soft soft_eq_num_str isinstance_int_float_def)
  have strict: "eval H R (VDict [(''==='', VList [VDict [(''var'', VStr ''age'')], VStr ''25''])])
          (VDict [(''age'', VInt 25)]) s = (Inr (VBool False), s)"
    if "R ''==='' = None"
    using that by (simp add: normalize_operands_def apply_op_strict)
  show ?thesis
    using soft strict soft_eq_None_left [of H b] soft_eq_None_right [of H a]
      soft_eq_str_num [of b H t] soft_eq_num_str [of a H t] soft_eq_direct [of a b H]
      apply_op_soft [of H a b "values"] apply_op_strict [of H a b "values"]
    by blast
qed

theorem C8_soft_and_strict_equality_witness:
  "isinstance_int_float (VInt 25 :: rat pyval)
   \<and> float_of_str ideal_host ''25'' = Some 25 \<and> float_value ideal_host 25 = Fin 25
   \<and> no_custom_ops ''=='' = None \<and> no_custom_ops ''==='' = None
   \<and> (VBool True :: rat pyval) \<noteq> VNone \<and> (VInt 1 :: rat pyval) \<noteq> VNone
   \<and> \<not> (isinstance_str (VBool True :: rat pyval) \<and> isinstance_int_float (VInt 1 :: rat pyval))
   \<and> \<not> (isinstance_str (VInt 1 :: rat pyval) \<and> isinstance_int_float (VBool True :: rat pyval))
   \<and> soft_eq ideal_host (VStr ''25'') (VInt 25)
   \<and> soft_eq ideal_host (VInt 25) (VStr ''25'')
   \<and> \<not> soft_eq ideal_host (VInt 25) (VStr ''abc'')
   \<and> soft_eq ideal_host (VBool True) (VInt 1)
   \<and> eval ideal_host no_custom_ops
        (VDict [(''=='', VList [VDict [(''var'', VStr ''age'')], VStr ''25''])])
        (VDict [(''age'', VInt 25)]) () = (Inr (VBool True), ())
   \<and> eval ideal_host no_custom_ops
        (VDict [(''==='', VList [VDict [(''var'', VStr ''age'')], VStr ''25''])])
        (VDict [(''age'', VInt 25)]) () = (Inr (VBool False), ())"
proof -
  have h: "isinstance_int_float (VInt 25 :: rat pyval)"
    "float_of_str ideal_host ''25'' = Some 25" "float_value ideal_host 25 = Fin 25"
    "float_of_str ideal_host ''abc'' = None"
    "no_custom_ops ''=='' = None" "no_custom_ops ''==='' = None"
    "\<not> isinstance_str (VBool True :: rat pyval)" "\<not> isinstance_str (VInt 1 :: rat pyval)"
    by (simp_all add: isinstance_int_float_def isinstance_str_def ideal_host_def parse_decimal_def
        digit_value_def no_custom_ops_def)
  have e: "py_eq ideal_host (VFloat 25) (VInt 25)" "py_eq ideal_host (VInt 25) (VFloat 25)"
    "py_eq ideal_host (VBool True) (VInt 1)"
    by (simp_all add: ideal_host_def)
  from C8_soft_and_strict_equality [of ideal_host "VInt 25" "VInt 25" "''25''" "[]" 25
      no_custom_ops "()"] h e
  have 1: "soft_eq ideal_host (VStr ''25'') (VInt 25)" "soft_eq ideal_host (VInt 25) (VStr ''25'')"
    "eval ideal_host no_custom_ops
        (VDict [(''=='', VList [VDict [(''var'', VStr ''age'')], VStr ''25''])])
        (VDict [(''age'', VInt 25)]) () = (Inr (VBool True), ())"
    "eval ideal_host no_custom_ops
        (VDict [(''==='', VList [VDict [(''var'', VStr ''age'')], VStr ''25''])])
        (VDict [(''age'', VInt 25)]) () = (Inr (VBool False), ())"
    by simp_all
  from C8_soft_and_strict_equality [of ideal_host "VInt 25" "VInt 25" "''abc''" "[]" 25
      no_custom_ops "()"] h
  have 2: "\<not> soft_eq ideal_host (VInt 25) (VStr ''abc'')" by simp
  from C8_soft_and_strict_equality [of ideal_host "VInt 1" "VBool True" "''abc''" "[]" 25
      no_custom_ops "()"] h e
  have 3: "soft_eq ideal_host (VBool True) (VInt 1)" by simp
  from 1 2 3 h show ?thesis by simp
qed

section \<open>The variable operator\<close>

lemma eval_var_node:
  "eval H R (VDict ((''var'', v) # entries)) data s = op_var H R (normalize_operands v) data s"
  by simp

text \<open>
  What \<^verbatim>\<open>_op_var\<close> does where it returns. \<^verbatim>\<open>var\<close> with no operand returns the current
  record. With operands, the first is evaluated against the current record; when that
  yields the key \<^verbatim>\<open>""\<close> or \<^verbatim>\<open>None\<close> the record is returned; otherwise, when the record is
  not a mapping, the default is returned (the second operand as it stands, or
  \<^verbatim>\<open>None\<close>), whatever the key; and when the record is a mapping and the key is hashable
  (not a list or a mapping), the value under the key is returned, or the default when
  the key is not present.
\<close>

theorem var_lookup:
  "(normalize_operands v = [] \<longrightarrow>
      eval H R (VDict ((''var'', v) # entries)) data s = (Inr data, s))
   \<and> (normalize_operands v = operand # others \<and> eval H R operand data s = (Inr key, s1) \<longrightarrow>
        (key = VStr [] \<or> key = VNone \<longrightarrow>
           eval H R (VDict ((''var'', v) # entries)) data s = (Inr data, s1))
      \<and> (key \<noteq> VStr [] \<and> key \<noteq> VNone \<and> py_type data \<noteq> DictType \<longrightarrow>
           eval H R (VDict ((''var'', v) # entries)) data s
             = (Inr (case others of [] \<Rightarrow> VNone | d # _ \<Rightarrow> d), s1))
      \<and> (key \<noteq> VStr [] \<and> key \<noteq> VNone \<and> hashable key \<and> data = VDict kvs \<longrightarrow>
           eval H R (VDict ((''var'', v) # entries)) data s
             = (Inr (case key of
                       VStr k \<Rightarrow> (case map_of kvs k of
                                    Some x \<Rightarrow> x
                                  | None \<Rightarrow> (case others of [] \<Rightarrow> VNone | d # _ \<Rightarrow> d))
                     | _ \<Rightarrow> (case others of [] \<Rightarrow> VNone | d # _ \<Rightarrow> d)), s1)))"
proof -
  have zero: "op_var H R (normalize_operands v) data s = (Inr data, s)"
    if "normalize_operands v = []"
    using that by simp
  have whole: "op_var H R (normalize_operands v) data s = (Inr data, s1)"
    if "normalize_operands v = operand # others" "eval H R operand data s = (Inr key, s1)"
      "key = VStr [] \<or> key = VNone"
    using that by (auto simp: py_eq_empty_str)
  have not_mapping: "op_var H R (normalize_operands v) data s
             = (Inr (case others of [] \<Rightarrow> VNone | d # _ \<Rightarrow> d), s1)"
    if "normalize_operands v = operand # others" "eval H R operand data s = (Inr key, s1)"
      "key \<noteq> VStr []" "key \<noteq> VNone" "py_type data \<noteq> DictType"
    using that by (cases data) (simp_all add: py_eq_empty_str)
  have lookup: "op_var H R (normalize_operands v) data s
             = (Inr (case key of
                       VStr k \<Rightarrow> (case map_of kvs k of
                                    Some x \<Rightarrow> x
                                  | None \<Rightarrow> (case others of [] \<Rightarrow> VNone | d # _ \<Rightarrow> d))
                     | _ \<Rightarrow> (case others of [] \<Rightarrow> VNone | d # _ \<Rightarrow> d)), s1)"
    if "normalize_operands v = operand # others" "eval H R operand data s = (Inr key, s1)"
      "key \<noteq> VStr []" "key \<noteq> VNone" "hashable key" "data = VDict kvs"
    using that by (cases key) (simp_all add: py_eq_empty_str split: option.splits)
  show ?thesis
    unfolding eval_var_node using zero whole not_mapping lookup by blast
qed

theorem var_lookup_runs:
  "normalize_operands (VList [] :: rat pyval) = []
   \<and> normalize_operands (VList [VStr ''city'', VStr ''none'']) = [VStr ''city'', VStr ''none'' :: rat pyval]
   \<and> eval ideal_host no_custom_ops (VStr ''city'') (VDict [(''age'', VInt 25)]) ()
        = (Inr (VStr ''city''), ())
   \<and> eval ideal_host no_custom_ops (VDict [(''var'', VList [])]) (VDict [(''age'', VInt 25)]) ()
        = (Inr (VDict [(''age'', VInt 25)]), ())
   \<and> eval ideal_host no_custom_ops (VDict [(''var'', VStr [])]) (VInt 7) () = (Inr (VInt 7), ())
   \<and> eval ideal_host no_custom_ops (VDict [(''var'', VStr ''age'')]) (VDict [(''age'', VInt 25)]) ()
        = (Inr (VInt 25), ())
   \<and> eval ideal_host no_custom_ops (VDict [(''var'', VList [VStr ''city'', VStr ''none''])])
        (VDict [(''age'', VInt 25)]) () = (Inr (VStr ''none''), ())
   \<and> eval ideal_host no_custom_ops (VDict [(''var'', VList [VStr ''city'', VStr ''none''])])
        (VInt 7) () = (Inr (VStr ''none''), ())"
proof -
  have n: "normalize_operands (VList [] :: rat pyval) = []"
    "normalize_operands (VList [VStr ''city'', VStr ''none'']) = [VStr ''city'', VStr ''none'' :: rat pyval]"
    "normalize_operands (VStr [] :: rat pyval) = [VStr []]"
    "normalize_operands (VStr ''age'' :: rat pyval) = [VStr ''age'']"
    by (simp_all add: normalize_operands_def)
  have k: "eval ideal_host no_custom_ops (VStr ''city'') (VDict [(''age'', VInt 25)]) ()
        = (Inr (VStr ''city''), ())"
    "eval ideal_host no_custom_ops (VStr ''age'') (VDict [(''age'', VInt 25)]) ()
        = (Inr (VStr ''age''), ())"
    "eval ideal_host no_custom_ops (VStr ''city'') (VInt 7) () = (Inr (VStr ''city''), ())"
    "eval ideal_host no_custom_ops (VStr []) (VInt 7) () = (Inr (VStr []), ())"
    by simp_all
  from var_lookup [where v = "VList []" and H = ideal_host and R = no_custom_ops
      and entries = "[]" and data = "VDict [(''age'', VInt 25)]" and s = "()"] n
  have 1: "eval ideal_host no_custom_ops (VDict [(''var'', VList [])]) (VDict [(''age'', VInt 25)]) ()
        = (Inr (VDict [(''age'', VInt 25)]), ())"
    by simp
  from var_lookup [where v = "VStr []" and H = ideal_host and R = no_custom_ops
      and entries = "[]" and data = "VInt 7" and s = "()" and operand = "VStr []"
      and others = "[]" and key = "VStr []" and ?s1.0 = "()"] n k
  have 2: "eval ideal_host no_custom_ops (VDict [(''var'', VStr [])]) (VInt 7) () = (Inr (VInt 7), ())"
    by simp
  from var_lookup [where v = "VStr ''age''" and H = ideal_host and R = no_custom_ops
      and entries = "[]" and data = "VDict [(''age'', VInt 25)]" and s = "()"
      and operand = "VStr ''age''" and others = "[]" and key = "VStr ''age''" and ?s1.0 = "()"
      and kvs = "[(''age'', VInt 25)]"] n k
  have 3: "eval ideal_host no_custom_ops (VDict [(''var'', VStr ''age'')]) (VDict [(''age'', VInt 25)]) ()
        = (Inr (VInt 25), ())"
    by simp
  from var_lookup [where v = "VList [VStr ''city'', VStr ''none'']" and H = ideal_host
      and R = no_custom_ops and entries = "[]" and data = "VDict [(''age'', VInt 25)]" and s = "()"
      and operand = "VStr ''city''" and others = "[VStr ''none'']" and key = "VStr ''city''"
      and ?s1.0 = "()" and kvs = "[(''age'', VInt 25)]"] n k
  have 4: "eval ideal_host no_custom_ops (VDict [(''var'', VList [VStr ''city'', VStr ''none''])])
        (VDict [(''age'', VInt 25)]) () = (Inr (VStr ''none''), ())"
    by simp
  from var_lookup [where v = "VList [VStr ''city'', VStr ''none'']" and H = ideal_host
      and R = no_custom_ops and entries = "[]" and data = "VInt 7" and s = "()"
      and operand = "VStr ''city''" and others = "[VStr ''none'']" and key = "VStr ''city''"
      and ?s1.0 = "()"] n k
  have 5: "eval ideal_host no_custom_ops (VDict [(''var'', VList [VStr ''city'', VStr ''none''])])
        (VInt 7) () = (Inr (VStr ''none''), ())"
    by simp
  from n k 1 2 3 4 5 show ?thesis by simp
qed

text \<open>
  C5. The claim is that \<^verbatim>\<open>var\<close> returns the default whenever the key is not present in
  the record. \<^verbatim>\<open>_op_var\<close> attempts this with \<^verbatim>\<open>data.get(var_name, default)\<close>, and for a
  record that is not a mapping it returns the default for any key; but for a mapping
  and a key that is a list, \<^verbatim>\<open>dict.get\<close> raises TypeError (unhashable key) instead:
  \<^verbatim>\<open>evaluate({"var": [[1]]}, {})\<close> raises, while the same rule on the record \<^verbatim>\<open>5\<close> returns
  \<^verbatim>\<open>None\<close>.
\<close>

theorem C5_unhashable_key_counterexample:
  "eval ideal_host no_custom_ops (VDict [(''var'', VList [VList [VInt 1]])]) (VDict []) ()
     = (Inl TypeError, ())
   \<and> eval ideal_host no_custom_ops (VDict [(''var'', VList [VList [VInt 1]])]) (VDict []) ()
     \<noteq> (Inr VNone, ())
   \<and> eval ideal_host no_custom_ops (VDict [(''var'', VList [VList [VInt 1]])]) (VInt 5) ()
     = (Inr VNone, ())"
  by (simp add: run_simps)

section \<open>The conditional\<close>

lemma op_if_skip:
  "falsy_run H R data (map fst cvs) s = Some s1 \<Longrightarrow>
   op_if H R (branches cvs @ rest) data s = op_if H R rest data s1"
proof (induction cvs arbitrary: s)
  case Nil
  then show ?case by (simp add: branches_def)
next
  case (Cons cv cvs)
  obtain c v where cv: "cv = (c, v)" by (cases cv)
  obtain x s' where ev: "eval H R c data s = (x, s')" by (cases "eval H R c data s")
  from Cons.prems cv ev obtain r where r: "x = Inr r" "\<not> truthy H r"
    and run: "falsy_run H R data (map fst cvs) s' = Some s1"
    by (cases x) (auto split: if_splits)
  have "op_if H R (branches (cv # cvs) @ rest) data s = op_if H R (branches cvs @ rest) data s'"
    using cv ev r by (simp add: branches_def)
  with Cons.IH [OF run] show ?case by simp
qed

lemma eval_if_node:
  "eval H R (VDict ((''if'', VList operands) # entries)) data s = op_if H R operands data s"
  by (simp add: normalize_operands_def)

lemma length_branches: "length (branches cvs) = 2 * length cvs"
  by (induction cvs) (auto simp: branches_def)

text \<open>
  C6. Let the conditions of the pairs \<open>cvs\<close> evaluate, in order, to falsy values, ending
  in state \<open>s1\<close>. If the next condition \<open>c\<close> is truthy, \<^verbatim>\<open>if\<close> returns the evaluation of
  its value \<open>v\<close>, in the state \<open>c\<close> left; the values of the earlier pairs and all that
  follows \<open>v\<close> can be replaced by anything without changing the result or the final
  state. If no pair is left, one trailing operand (odd count) is evaluated and returned,
  and with none (even count) the result is \<^verbatim>\<open>None\<close>.
\<close>

theorem C6_if_short_circuit:
  assumes "falsy_run H R data (map fst cvs) s = Some s1"
  shows "(eval H R c data s1 = (Inr r, s2) \<and> truthy H r \<longrightarrow>
            eval H R (VDict ((''if'', VList (branches cvs @ c # v # rest)) # entries)) data s
              = eval H R v data s2)
       \<and> (eval H R c data s1 = (Inr r, s2) \<and> truthy H r \<and> map fst cvs' = map fst cvs \<longrightarrow>
            eval H R (VDict ((''if'', VList (branches cvs' @ c # v # rest')) # entries)) data s
              = eval H R (VDict ((''if'', VList (branches cvs @ c # v # rest)) # entries)) data s)
       \<and> odd (length (branches cvs @ [e]))
       \<and> eval H R (VDict ((''if'', VList (branches cvs @ [e])) # entries)) data s
              = eval H R e data s1
       \<and> even (length (branches cvs))
       \<and> eval H R (VDict ((''if'', VList (branches cvs)) # entries)) data s = (Inr VNone, s1)"
proof -
  have taken: "eval H R (VDict ((''if'', VList (branches xs @ c # v # tl)) # entries)) data s
              = eval H R v data s2"
    if "eval H R c data s1 = (Inr r, s2)" "truthy H r" "map fst xs = map fst cvs" for xs tl
  proof -
    from assms that(3) have "falsy_run H R data (map fst xs) s = Some s1" by simp
    from op_if_skip [OF this, of "c # v # tl"] that(1,2) show ?thesis
      unfolding eval_if_node by simp
  qed
  have else_branch: "eval H R (VDict ((''if'', VList (branches cvs @ [e])) # entries)) data s
              = eval H R e data s1"
    using op_if_skip [OF assms, of "[e]"] unfolding eval_if_node by simp
  have no_else: "eval H R (VDict ((''if'', VList (branches cvs)) # entries)) data s = (Inr VNone, s1)"
    using op_if_skip [OF assms, of "[]"] unfolding eval_if_node by simp
  show ?thesis
    using taken [of cvs rest] taken [of cvs' rest'] else_branch no_else
    by (simp add: length_branches)
qed

theorem C6_if_short_circuit_witness:
  "falsy_run ideal_host counting_ops (VDict [])
     (map fst [(VBool False, VDict [(''tick'', VList [])])]) 0 = Some 0
   \<and> eval ideal_host counting_ops (VBool True) (VDict []) 0 = (Inr (VBool True), 0)
   \<and> truthy ideal_host (VBool True)
   \<and> eval ideal_host counting_ops
        (VDict [(''if'', VList [VBool False, VDict [(''tick'', VList [])], VBool True, VStr ''yes'',
                                VDict [(''tick'', VList [])]])]) (VDict []) 0
       = (Inr (VStr ''yes''), 0)
   \<and> eval ideal_host counting_ops
        (VDict [(''if'', VList [VBool False, VDict [(''tick'', VList [])], VStr ''no''])]) (VDict []) 0
       = (Inr (VStr ''no''), 0)
   \<and> eval ideal_host counting_ops
        (VDict [(''if'', VList [VBool False, VDict [(''tick'', VList [])]])]) (VDict []) 0
       = (Inr VNone, 0)
   \<and> eval ideal_host counting_ops (VDict [(''tick'', VList [])]) (VDict []) 0 = (Inr (VBool True), 1)"
proof -
  have run: "falsy_run ideal_host counting_ops (VDict [])
     (map fst [(VBool False, VDict [(''tick'', VList [])])]) 0 = Some 0"
    by simp
  have c: "eval ideal_host counting_ops (VBool True) (VDict []) 0 = (Inr (VBool True), 0)"
    "truthy ideal_host (VBool True)"
    by simp_all
  have t: "eval ideal_host counting_ops (VDict [(''tick'', VList [])]) (VDict []) 0
             = (Inr (VBool True), 1)"
    by (simp add: run_simps)
  from C6_if_short_circuit [OF run, where c = "VBool True" and r = "VBool True" and ?s2.0 = 0
      and cvs' = "[(VBool False, VDict [(''tick'', VList [])])]" and v = "VStr ''yes''"
      and rest = "[VDict [(''tick'', VList [])]]" and rest' = "[]" and entries = "[]"
      and e = "VStr ''no''"] c
  have "eval ideal_host counting_ops
        (VDict [(''if'', VList [VBool False, VDict [(''tick'', VList [])], VBool True, VStr ''yes'',
                                VDict [(''tick'', VList [])]])]) (VDict []) 0
       = (Inr (VStr ''yes''), 0)"
    "eval ideal_host counting_ops
        (VDict [(''if'', VList [VBool False, VDict [(''tick'', VList [])], VStr ''no''])]) (VDict []) 0
       = (Inr (VStr ''no''), 0)"
    "eval ideal_host counting_ops
        (VDict [(''if'', VList [VBool False, VDict [(''tick'', VList [])]])]) (VDict []) 0
       = (Inr VNone, 0)"
    by (simp_all add: branches_def)
  with run c t show ?thesis by simp
qed

section \<open>Quantifiers\<close>

lemma op_array_loop_skip:
  assumes "cond_run H R condition b pre s = Some s1"
    and "op = ''some'' \<or> op = ''none'' \<Longrightarrow> \<not> b" and "op = ''all'' \<Longrightarrow> b"
  shows "op_array_loop H R op condition (pre @ post) s = op_array_loop H R op condition post s1"
  using assms(1)
proof (induction pre arbitrary: s)
  case Nil
  then show ?case by simp
next
  case (Cons item pre)
  obtain x s' where ev: "eval H R condition item s = (x, s')"
    by (cases "eval H R condition item s")
  from Cons.prems ev obtain r where r: "x = Inr r" "truthy H r = b"
    and run: "cond_run H R condition b pre s' = Some s1"
    by (cases x) (auto split: if_splits)
  have "op_array_loop H R op condition ((item # pre) @ post) s
          = op_array_loop H R op condition (pre @ post) s'"
    using ev r assms(2,3) by auto
  with Cons.IH [OF run] show ?case by simp
qed

lemma eval_array_node:
  "op = ''some'' \<or> op = ''all'' \<or> op = ''none'' \<Longrightarrow>
   eval H R (VDict ((op, VList [operand, condition]) # entries)) data s =
     (case eval H R operand data s of
        (Inl e, s') \<Rightarrow> (Inl e, s')
      | (Inr array, s') \<Rightarrow>
          (case array of
             VList items \<Rightarrow>
               if items = [] then (Inr (VBool (op = ''none'')), s')
               else op_array_loop H R op condition items s'
           | _ \<Rightarrow> (Inr (VBool (op = ''none'')), s')))"
  by (auto simp: normalize_operands_def split: prod.splits sum.splits pyval.splits)

lemma array_not_list:
  assumes "op = ''some'' \<or> op = ''all'' \<or> op = ''none''"
    and "eval H R operand data s = (Inr array, s1)" and "py_type array \<noteq> ListType"
  shows "eval H R (VDict ((op, VList [operand, condition]) # entries)) data s
           = (Inr (VBool (op = ''none'')), s1)"
  unfolding eval_array_node [OF assms(1)] using assms(2,3) by (cases array) simp_all

lemma array_empty:
  assumes "op = ''some'' \<or> op = ''all'' \<or> op = ''none''"
    and "eval H R operand data s = (Inr (VList []), s1)"
  shows "eval H R (VDict ((op, VList [operand, condition]) # entries)) data s
           = (Inr (VBool (op = ''none'')), s1)"
  unfolding eval_array_node [OF assms(1)] using assms(2) by simp

lemma array_decided:
  assumes "op = ''some'' \<or> op = ''all'' \<or> op = ''none''"
    and "eval H R operand data s = (Inr (VList (pre @ x # post)), s1)"
    and "cond_run H R condition (op = ''all'') pre s1 = Some s2"
    and "eval H R condition x s2 = (Inr r, s3)" and "truthy H r = (op \<noteq> ''all'')"
  shows "eval H R (VDict ((op, VList [operand, condition]) # entries)) data s
           = (Inr (VBool (op = ''some'')), s3)"
proof -
  have "op_array_loop H R op condition (pre @ x # post) s1
          = op_array_loop H R op condition (x # post) s2"
    using assms(1) by (intro op_array_loop_skip [OF assms(3)]) auto
  also have "\<dots> = (Inr (VBool (op = ''some'')), s3)"
    using assms(1,4,5) by auto
  finally show ?thesis
    unfolding eval_array_node [OF assms(1)] using assms(2) by simp
qed

lemma array_exhausted:
  assumes "op = ''some'' \<or> op = ''all'' \<or> op = ''none''"
    and "eval H R operand data s = (Inr (VList items), s1)" and "items \<noteq> []"
    and "cond_run H R condition (op = ''all'') items s1 = Some s2"
  shows "eval H R (VDict ((op, VList [operand, condition]) # entries)) data s
           = (Inr (VBool (op \<noteq> ''some'')), s2)"
proof -
  have "op_array_loop H R op condition (items @ []) s1 = op_array_loop H R op condition [] s2"
    using assms(1) by (intro op_array_loop_skip [OF assms(4)]) auto
  then show ?thesis
    unfolding eval_array_node [OF assms(1)] using assms(2,3) by simp
qed

text \<open>
  C3, as amended. Let the first operand of \<^verbatim>\<open>some\<close>, \<^verbatim>\<open>all\<close> or \<^verbatim>\<open>none\<close> evaluate to
  \<open>array\<close>. If \<open>array\<close> is not a sequence, or is the empty sequence, then \<^verbatim>\<open>none\<close> is
  true and \<^verbatim>\<open>some\<close> and \<^verbatim>\<open>all\<close> are false. Otherwise the condition is evaluated against
  each item in order, the item being the current record: at the first truthy result
  \<^verbatim>\<open>some\<close> is true and \<^verbatim>\<open>none\<close> is false, at the first falsy result \<^verbatim>\<open>all\<close> is false,
  and the items after it are not evaluated (the state is the one that item left); when
  no item decides, \<^verbatim>\<open>some\<close> is false and \<^verbatim>\<open>all\<close> and \<^verbatim>\<open>none\<close> are true.
\<close>

theorem C3_quantifiers:
  assumes "eval H R operand data s = (Inr array, s1)"
  shows "(py_type array \<noteq> ListType \<or> array = VList [] \<longrightarrow>
            eval H R (VDict ((''some'', VList [operand, condition]) # entries)) data s
              = (Inr (VBool False), s1)
          \<and> eval H R (VDict ((''all'', VList [operand, condition]) # entries)) data s
              = (Inr (VBool False), s1)
          \<and> eval H R (VDict ((''none'', VList [operand, condition]) # entries)) data s
              = (Inr (VBool True), s1))
       \<and> (array = VList (pre @ x # post) \<and> cond_run H R condition False pre s1 = Some s2
          \<and> eval H R condition x s2 = (Inr r, s3) \<and> truthy H r \<longrightarrow>
            eval H R (VDict ((''some'', VList [operand, condition]) # entries)) data s
              = (Inr (VBool True), s3)
          \<and> eval H R (VDict ((''none'', VList [operand, condition]) # entries)) data s
              = (Inr (VBool False), s3))
       \<and> (array = VList (pre @ x # post) \<and> cond_run H R condition True pre s1 = Some s2
          \<and> eval H R condition x s2 = (Inr r, s3) \<and> \<not> truthy H r \<longrightarrow>
            eval H R (VDict ((''all'', VList [operand, condition]) # entries)) data s
              = (Inr (VBool False), s3))
       \<and> (array = VList items \<and> items \<noteq> [] \<and> cond_run H R condition False items s1 = Some s2 \<longrightarrow>
            eval H R (VDict ((''some'', VList [operand, condition]) # entries)) data s
              = (Inr (VBool False), s2)
          \<and> eval H R (VDict ((''none'', VList [operand, condition]) # entries)) data s
              = (Inr (VBool True), s2))
       \<and> (array = VList items \<and> items \<noteq> [] \<and> cond_run H R condition True items s1 = Some s2 \<longrightarrow>
            eval H R (VDict ((''all'', VList [operand, condition]) # entries)) data s
              = (Inr (VBool True), s2))"
proof -
  have fallback: "eval H R (VDict ((op, VList [operand, condition]) # entries)) data s
              = (Inr (VBool (op = ''none'')), s1)"
    if "op = ''some'' \<or> op = ''all'' \<or> op = ''none''" "py_type array \<noteq> ListType \<or> array = VList []"
    for op
    using that(2)
  proof
    assume "py_type array \<noteq> ListType"
    from array_not_list [OF that(1) assms this] show ?thesis .
  next
    assume "array = VList []"
    with assms have "eval H R operand data s = (Inr (VList []), s1)" by simp
    from array_empty [OF that(1) this] show ?thesis .
  qed
  have decided: "eval H R (VDict ((op, VList [operand, condition]) # entries)) data s
           = (Inr (VBool (op = ''some'')), s3)"
    if "op = ''some'' \<or> op = ''all'' \<or> op = ''none''" "array = VList (pre @ x # post)"
      "cond_run H R condition (op = ''all'') pre s1 = Some s2"
      "eval H R condition x s2 = (Inr r, s3)" "truthy H r = (op \<noteq> ''all'')"
    for op
    using array_decided [OF that(1) _ that(3,4,5)] assms that(2) by simp
  have exhausted: "eval H R (VDict ((op, VList [operand, condition]) # entries)) data s
           = (Inr (VBool (op \<noteq> ''some'')), s2)"
    if "op = ''some'' \<or> op = ''all'' \<or> op = ''none''" "array = VList items" "items \<noteq> []"
      "cond_run H R condition (op = ''all'') items s1 = Some s2"
    for op
    using array_exhausted [OF that(1) _ that(3,4)] assms that(2) by simp
  show ?thesis
    using fallback [of "''some''"] fallback [of "''all''"] fallback [of "''none''"]
      decided [of "''some''"] decided [of "''all''"] decided [of "''none''"]
      exhausted [of "''some''"] exhausted [of "''all''"] exhausted [of "''none''"]
    by simp
qed

lemma in_vip_runs:
  "eval ideal_host no_custom_ops in_vip (VStr ''vip'') () = (Inr (VBool True), ())"
  "eval ideal_host no_custom_ops in_vip (VStr ''admin'') () = (Inr (VBool True), ())"
  "eval ideal_host no_custom_ops in_vip (VStr ''x'') () = (Inr (VBool False), ())"
  "eval ideal_host no_custom_ops in_vip (VStr ''y'') () = (Inr (VBool False), ())"
  by (simp_all add: in_vip_def run_simps)

lemma tags_var_runs:
  "eval ideal_host no_custom_ops tags_var (VDict [(''tags'', ts)]) () = (Inr ts, ())"
  by (simp add: tags_var_def run_simps)

theorem C3_quantifiers_witness:
  "eval ideal_host no_custom_ops (VDict [(''some'', VList [tags_var, in_vip])])
      (VDict [(''tags'', VList [VStr ''x'', VStr ''vip'', VStr ''y''])]) () = (Inr (VBool True), ())
   \<and> eval ideal_host no_custom_ops (VDict [(''none'', VList [tags_var, in_vip])])
      (VDict [(''tags'', VList [VStr ''x'', VStr ''vip'', VStr ''y''])]) () = (Inr (VBool False), ())
   \<and> eval ideal_host no_custom_ops (VDict [(''all'', VList [tags_var, in_vip])])
      (VDict [(''tags'', VList [VStr ''vip'', VStr ''x'', VStr ''y''])]) () = (Inr (VBool False), ())
   \<and> eval ideal_host no_custom_ops (VDict [(''some'', VList [tags_var, in_vip])])
      (VDict [(''tags'', VList [VStr ''x'', VStr ''y''])]) () = (Inr (VBool False), ())
   \<and> eval ideal_host no_custom_ops (VDict [(''none'', VList [tags_var, in_vip])])
      (VDict [(''tags'', VList [VStr ''x'', VStr ''y''])]) () = (Inr (VBool True), ())
   \<and> eval ideal_host no_custom_ops (VDict [(''all'', VList [tags_var, in_vip])])
      (VDict [(''tags'', VList [VStr ''vip'', VStr ''admin''])]) () = (Inr (VBool True), ())
   \<and> eval ideal_host no_custom_ops (VDict [(''all'', VList [tags_var, in_vip])])
      (VDict [(''tags'', VList [])]) () = (Inr (VBool False), ())
   \<and> eval ideal_host no_custom_ops (VDict [(''none'', VList [tags_var, in_vip])])
      (VDict [(''tags'', VInt 5)]) () = (Inr (VBool True), ())
   \<and> eval ideal_host no_custom_ops (VDict [(''some'', VList [tags_var, in_vip])])
      (VDict [(''tags'', VInt 5)]) () = (Inr (VBool False), ())"
proof -
  have runs: "cond_run ideal_host no_custom_ops in_vip False [VStr ''x''] () = Some ()"
    "cond_run ideal_host no_custom_ops in_vip True [VStr ''vip''] () = Some ()"
    "cond_run ideal_host no_custom_ops in_vip False [VStr ''x'', VStr ''y''] () = Some ()"
    "cond_run ideal_host no_custom_ops in_vip True [VStr ''vip'', VStr ''admin''] () = Some ()"
    by (simp_all add: in_vip_runs)
  have t: "truthy ideal_host (VBool True :: rat pyval)" "\<not> truthy ideal_host (VBool False :: rat pyval)"
    by simp_all
  from C3_quantifiers [OF tags_var_runs, where pre = "[VStr ''x'']" and x = "VStr ''vip''"
      and post = "[VStr ''y'']" and condition = in_vip and ?s2.0 = "()" and ?s3.0 = "()"
      and r = "VBool True" and entries = "[]"] runs in_vip_runs t
  have 1: "eval ideal_host no_custom_ops (VDict [(''some'', VList [tags_var, in_vip])])
      (VDict [(''tags'', VList [VStr ''x'', VStr ''vip'', VStr ''y''])]) () = (Inr (VBool True), ())"
    "eval ideal_host no_custom_ops (VDict [(''none'', VList [tags_var, in_vip])])
      (VDict [(''tags'', VList [VStr ''x'', VStr ''vip'', VStr ''y''])]) () = (Inr (VBool False), ())"
    by simp_all
  from C3_quantifiers [OF tags_var_runs, where pre = "[VStr ''vip'']" and x = "VStr ''x''"
      and post = "[VStr ''y'']" and condition = in_vip and ?s2.0 = "()" and ?s3.0 = "()"
      and r = "VBool False" and entries = "[]"] runs in_vip_runs t
  have 2: "eval ideal_host no_custom_ops (VDict [(''all'', VList [tags_var, in_vip])])
      (VDict [(''tags'', VList [VStr ''vip'', VStr ''x'', VStr ''y''])]) () = (Inr (VBool False), ())"
    by simp
  from C3_quantifiers [OF tags_var_runs, where items = "[VStr ''x'', VStr ''y'']"
      and condition = in_vip and ?s2.0 = "()" and entries = "[]"] runs
  have 3: "eval ideal_host no_custom_ops (VDict [(''some'', VList [tags_var, in_vip])])
      (VDict [(''tags'', VList [VStr ''x'', VStr ''y''])]) () = (Inr (VBool False), ())"
    "eval ideal_host no_custom_ops (VDict [(''none'', VList [tags_var, in_vip])])
      (VDict [(''tags'', VList [VStr ''x'', VStr ''y''])]) () = (Inr (VBool True), ())"
    by simp_all
  from C3_quantifiers [OF tags_var_runs, where items = "[VStr ''vip'', VStr ''admin'']"
      and condition = in_vip and ?s2.0 = "()" and entries = "[]"] runs
  have 4: "eval ideal_host no_custom_ops (VDict [(''all'', VList [tags_var, in_vip])])
      (VDict [(''tags'', VList [VStr ''vip'', VStr ''admin''])]) () = (Inr (VBool True), ())"
    by simp
  from C3_quantifiers [OF tags_var_runs [of "VList []"], where condition = in_vip
      and entries = "[]"]
  have 5: "eval ideal_host no_custom_ops (VDict [(''all'', VList [tags_var, in_vip])])
      (VDict [(''tags'', VList [])]) () = (Inr (VBool False), ())"
    by simp
  from C3_quantifiers [OF tags_var_runs [of "VInt 5"], where condition = in_vip
      and entries = "[]"]
  have 6: "eval ideal_host no_custom_ops (VDict [(''none'', VList [tags_var, in_vip])])
      (VDict [(''tags'', VInt 5)]) () = (Inr (VBool True), ())"
    "eval ideal_host no_custom_ops (VDict [(''some'', VList [tags_var, in_vip])])
      (VDict [(''tags'', VInt 5)]) () = (Inr (VBool False), ())"
    by simp_all
  from 1 2 3 4 5 6 show ?thesis by simp
qed

text \<open>The claim as stated fails: \<^verbatim>\<open>all\<close> over the empty sequence is false.\<close>

theorem C3_all_of_empty_counterexample:
  "eval ideal_host no_custom_ops (VDict [(''all'', VList [VList [], VBool True])]) (VDict []) ()
     = (Inr (VBool False), ())
   \<and> eval ideal_host no_custom_ops (VDict [(''all'', VList [VList [], VBool True])]) (VDict []) ()
     \<noteq> (Inr (VBool True), ())"
  by (simp add: run_simps)

section \<open>Registered operators\<close>

lemma control_registration_unused:
  assumes "\<forall>k. k \<notin> set control_ops \<longrightarrow> R k = R' k"
  shows "eval H R rules data s = eval H R' rules data s"
    and "op_var H R operands data s = op_var H R' operands data s"
    and "op_array H R op operands data s = op_array H R' op operands data s"
    and "op_array_loop H R op condition items s = op_array_loop H R' op condition items s"
    and "op_if H R operands data s = op_if H R' operands data s"
    and "eval_operands H R operands data s = eval_operands H R' operands data s"
  using assms
proof (induction H R rules data s and H R operands data s and H R op operands data s
    and H R op condition items s and H R operands data s and H R operands data s
    rule: eval_op_var_op_array_op_array_loop_op_if_eval_operands.induct)
qed (auto simp: control_ops_def split: prod.splits sum.splits option.splits pyval.splits)

lemma standard_not_control: "set standard_ops \<inter> set control_ops = {}"
  by (simp add: standard_ops_def control_ops_def)

text \<open>
  C7, as amended. No standard token is a control operator. For a name that is not one
  of the control operators \<^verbatim>\<open>var\<close>, \<^verbatim>\<open>some\<close>, \<^verbatim>\<open>all\<close>, \<^verbatim>\<open>none\<close>, \<^verbatim>\<open>if\<close>, a node of
  that name evaluates its operands and returns what the registered function returns on
  the values and the current record, whether or not the standard table has the name.
  A registration under the name of a control operator changes no evaluation.
\<close>

theorem C7_registry_before_standard_table:
  "set standard_ops \<inter> set control_ops = {}
   \<and> (op \<notin> set control_ops \<longrightarrow>
        eval H (register_operator R op func) (VDict ((op, v) # entries)) data s =
          (case eval_operands H (register_operator R op func) (normalize_operands v) data s of
             (Inl e, s') \<Rightarrow> (Inl e, s')
           | (Inr values, s') \<Rightarrow> func values data s'))
   \<and> (op \<in> set control_ops \<longrightarrow>
        eval H (register_operator R op func) rules data s = eval H R rules data s)"
proof -
  have custom: "eval H (register_operator R op func) (VDict ((op, v) # entries)) data s =
          (case eval_operands H (register_operator R op func) (normalize_operands v) data s of
             (Inl e, s') \<Rightarrow> (Inl e, s')
           | (Inr values, s') \<Rightarrow> func values data s')"
    if "op \<notin> set control_ops"
    unfolding eval_not_control [OF that]
    by (simp add: register_operator_def split: prod.splits sum.splits)
  have control: "eval H (register_operator R op func) rules data s = eval H R rules data s"
    if "op \<in> set control_ops"
  proof (rule control_registration_unused(1))
    show "\<forall>k. k \<notin> set control_ops \<longrightarrow> register_operator R op func k = R k"
      using that by (auto simp: register_operator_def)
  qed
  from custom control standard_not_control show ?thesis by blast
qed

theorem C7_registry_before_standard_table_witness:
  "''and'' \<notin> set control_ops \<and> ''and'' \<in> set standard_ops \<and> ''var'' \<in> set control_ops
   \<and> eval ideal_host (register_operator Map.empty ''and'' tick)
        (VDict [(''and'', VList [VBool False])]) (VDict []) 0 = (Inr (VBool True), 1)
   \<and> tick [VBool False] (VDict []) 0 = (Inr (VBool True), 1)
   \<and> eval ideal_host Map.empty (VDict [(''and'', VList [VBool False])]) (VDict []) (0 :: nat)
        = (Inr (VBool False), 0)
   \<and> eval ideal_host (register_operator Map.empty ''var'' tick)
        (VDict [(''var'', VStr ''x'')]) (VDict [(''x'', VInt 1)]) 0 = (Inr (VInt 1), 0)"
proof -
  have h: "''and'' \<notin> set control_ops" "''and'' \<in> set standard_ops" "''var'' \<in> set control_ops"
    by (simp_all add: control_ops_def standard_ops_def)
  have std: "eval ideal_host Map.empty (VDict [(''and'', VList [VBool False])]) (VDict []) (0 :: nat)
        = (Inr (VBool False), 0)"
    "eval ideal_host Map.empty (VDict [(''var'', VStr ''x'')]) (VDict [(''x'', VInt 1)]) (0 :: nat)
        = (Inr (VInt 1), 0)"
    by (simp_all add: run_simps)
  have t: "tick [VBool False] (VDict []) 0 = (Inr (VBool True), 1)"
    by (simp add: tick_def)
  from C7_registry_before_standard_table [where op = "''and''" and H = ideal_host
      and R = Map.empty and func = tick and v = "VList [VBool False]" and entries = "[]"
      and data = "VDict []" and s = 0] h t
  have 1: "eval ideal_host (register_operator Map.empty ''and'' tick)
        (VDict [(''and'', VList [VBool False])]) (VDict []) 0 = (Inr (VBool True), 1)"
    by (simp add: normalize_operands_def)
  from C7_registry_before_standard_table [where op = "''var''" and H = ideal_host
      and R = Map.empty and func = tick and rules = "VDict [(''var'', VStr ''x'')]"
      and data = "VDict [(''x'', VInt 1)]" and s = 0] h std
  have 2: "eval ideal_host (register_operator Map.empty ''var'' tick)
        (VDict [(''var'', VStr ''x'')]) (VDict [(''x'', VInt 1)]) 0 = (Inr (VInt 1), 0)"
    by simp
  from h std t 1 2 show ?thesis by simp
qed

text \<open>
  The claim as stated fails for \<^verbatim>\<open>var\<close>: the registered function is not invoked.
\<close>

theorem C7_registered_var_counterexample:
  "eval ideal_host (register_operator Map.empty ''var'' tick)
     (VDict [(''var'', VStr ''x'')]) (VDict [(''x'', VInt 1)]) 0 = (Inr (VInt 1), 0)
   \<and> eval ideal_host (register_operator Map.empty ''var'' tick)
     (VDict [(''var'', VStr ''x'')]) (VDict [(''x'', VInt 1)]) 0
       \<noteq> tick [VStr ''x''] (VDict [(''x'', VInt 1)]) 0"
  by (simp add: run_simps)

section \<open>Properties of Dependencies\<close>

lemma merge_assoc: "merge (merge a b) c = merge a (merge b c)"
  by (simp add: merge_def Un_assoc)

lemma merge_commute: "merge a b = merge b a"
  by (simp add: merge_def Un_commute)

lemma merge_init_right: "merge a Dependencies_init = a"
  by (simp add: merge_def Dependencies_init_def)

text \<open>
  C9. \<^verbatim>\<open>Dependencies.merge\<close> returns a Dependencies whose four sets are the pairwise
  unions of the arguments' sets; it is associative and commutative, and the freshly
  constructed Dependencies (four empty sets) is a right identity.
\<close>

theorem C9_merge_union_monoid:
  "fields_set (merge a b) = fields_set a \<union> fields_set b
   \<and> tag_ids (merge a b) = tag_ids a \<union> tag_ids b
   \<and> phonebook_ids (merge a b) = phonebook_ids a \<union> phonebook_ids b
   \<and> custom_field_ids (merge a b) = custom_field_ids a \<union> custom_field_ids b
   \<and> merge (merge a b) c = merge a (merge b c)
   \<and> merge a b = merge b a
   \<and> merge a Dependencies_init = a
   \<and> fields_set Dependencies_init = {} \<and> tag_ids Dependencies_init = {}
   \<and> phonebook_ids Dependencies_init = {} \<and> custom_field_ids Dependencies_init = {}"
proof -
  have "fields_set (merge a b) = fields_set a \<union> fields_set b" by (simp add: merge_def)
  moreover have "tag_ids (merge a b) = tag_ids a \<union> tag_ids b" by (simp add: merge_def)
  moreover have "phonebook_ids (merge a b) = phonebook_ids a \<union> phonebook_ids b"
    by (simp add: merge_def)
  moreover have "custom_field_ids (merge a b) = custom_field_ids a \<union> custom_field_ids b"
    by (simp add: merge_def)
  moreover note merge_assoc [of a b c] merge_commute [of a b] merge_init_right [of a]
  moreover have "fields_set Dependencies_init = {}" "tag_ids Dependencies_init = {}"
    "phonebook_ids Dependencies_init = {}" "custom_field_ids Dependencies_init = {}"
    by (simp_all add: Dependencies_init_def)
  ultimately show ?thesis by blast
qed

end
